theory Spec2Isabelle
  imports Complex_Main
begin

section \<open>The layer graphs built by \<^verbatim>\<open>voxelmorph/tf/networks.py\<close>\<close>

text \<open>
  The constructors of \<^verbatim>\<open>networks.py\<close> compute nothing on image data themselves:
  each one wires layers of Keras, neurite and \<^verbatim>\<open>voxelmorph.tf.layers\<close> into a graph of
  symbolic tensors and hands the graph to Keras. The data of the program is therefore the
  graph. A symbolic tensor is either a model input or the result of calling a configured
  layer on a list of tensors, as in \<^verbatim>\<open>layers.VecInt(method='ss', int_steps=7)(flow)\<close>.

  Conventions of the embedding:
  \<^item> a layer is identified by its class and the arguments the source passes; Keras layer
    labels (\<^verbatim>\<open>name=...\<close>) are kept only where they tell two layers with weights apart;
  \<^item> a keyword argument that the source may leave out is an \<open>option\<close>: \<open>None\<close> means
    that the call does not pass it, so the layer's own default applies;
  \<^item> convolutional sub-networks (the U-Net body, the feature detector, the deformable
    network, the hypernetwork) are single opaque layers;
  \<^item> every \<^verbatim>\<open>raise\<close> and \<^verbatim>\<open>assert\<close> statement of a modelled constructor is a branch
    returning \<open>Inl\<close>, and so is every exception of Python itself on the constructor's
    own lines (unpacking, indexing, \<^verbatim>\<open>pop\<close>, division, \<^verbatim>\<open>int\<close>); exceptions raised
    inside the calls of Keras, neurite, numpy and \<^verbatim>\<open>voxelmorph.tf.layers\<close> are outside
    the model;
  \<^item> Python numbers are \<open>int\<close>, \<open>nat\<close> (sizes) or \<open>real\<close> (the floats among the
    arguments, which the constructors compare and pass on); the entries of the weights
    that \<^verbatim>\<open>set_flow\<close> writes are \<^verbatim>\<open>float32\<close> numbers, with their rounding.
\<close>

subsection \<open>Errors and small Python helpers\<close>

datatype error =
    AssertionError string | ValueError string | ZeroDivisionError string | IndexError string
  | OverflowError string

text \<open>\<^verbatim>\<open>'%d' % n\<close> for a non-negative \<open>n\<close>.\<close>

fun str_nat :: "nat \<Rightarrow> string" where
  "str_nat n =
     (if n < 10 then [char_of (48 + n)]
      else str_nat (n div 10) @ [char_of (48 + n mod 10)])"

declare str_nat.simps [simp del]

text \<open>
  \<^verbatim>\<open>str.lower()\<close>. A \<open>char\<close> is read as the code point of the same number, so a
  \<open>string\<close> is a Python string over the code points below 256; there \<^verbatim>\<open>lower\<close> moves
  \<open>A\<close>..\<open>Z\<close> and the capital letters of Latin-1 (192..222 except the sign 215) up by 32.
\<close>

definition lower_char :: "char \<Rightarrow> char" where
  "lower_char c =
     (let n = (of_char c :: nat)
      in if (65 \<le> n \<and> n \<le> 90) \<or> (192 \<le> n \<and> n \<le> 222 \<and> n \<noteq> 215)
         then char_of (n + 32) else c)"

definition lower :: "string \<Rightarrow> string" where
  "lower s = map lower_char s"

text \<open>\<^verbatim>\<open>np.round\<close>: to the nearest integer, a tie to the even neighbour.\<close>

definition np_round :: "real \<Rightarrow> real" where
  "np_round x =
     (let f = \<lfloor>x\<rfloor>; d = x - of_int f
      in if d < 1 / 2 then of_int f
         else if 1 / 2 < d then of_int (f + 1)
         else if even f then of_int f else of_int (f + 1))"

subsection \<open>Symbolic tensors\<close>

text \<open>Functions that the source wraps in \<^verbatim>\<open>KL.Lambda\<close>.\<close>

datatype lam =
    CastFloat32                \<comment> \<open>\<^verbatim>\<open>lambda x: tf.cast(x, tf.float32)\<close>\<close>
  | CastFloat16                \<comment> \<open>\<^verbatim>\<open>lambda x: tf.cast(x, tf.float16)\<close>\<close>
  | Barycenter "nat list"      \<comment> \<open>\<^verbatim>\<open>ne.utils.barycenter(x, axes, normalize=True, shift_center=True) * shape_full\<close>\<close>
  | ReduceSumSpatial           \<comment> \<open>\<^verbatim>\<open>tf.reduce_sum(x, axes)\<close>\<close>
  | ReduceSumChannels          \<comment> \<open>\<^verbatim>\<open>tf.reduce_sum(x, axis=-1, keepdims=True)\<close>\<close>
  | FitAffine                  \<comment> \<open>\<^verbatim>\<open>lambda x: utils.fit_affine(*x)\<close>\<close>
  | AffineMatrixToParams       \<comment> \<open>\<^verbatim>\<open>utils.affine_matrix_to_params\<close>\<close>
  | MakeSquareAffine           \<comment> \<open>\<^verbatim>\<open>utils.make_square_affine\<close>\<close>
  | Sqrtm                      \<comment> \<open>\<^verbatim>\<open>tf.linalg.sqrtm\<close>\<close>

datatype layer =
    UnetBody                   \<comment> \<open>the convolutions of \<^verbatim>\<open>Unet\<close>, on its input (and the hypernetwork tensor)\<close>
  | Conv string nat            \<comment> \<open>label, number of filters\<close>
  | Concatenate
  | SampleNormalLogVar
  | RescaleTransform real      \<comment> \<open>zoom factor\<close>
  | Negate
  | VecInt string int          \<comment> \<open>\<^verbatim>\<open>method\<close>, \<^verbatim>\<open>int_steps\<close>\<close>
  | SpatialTransformer "string option" "real option" "nat list option" "bool option"
                               \<comment> \<open>\<^verbatim>\<open>interp_method\<close>, \<^verbatim>\<open>fill_value\<close>, \<^verbatim>\<open>shape\<close>, \<^verbatim>\<open>shift_center\<close>\<close>
  | LocalParamWithInput "int list" real string
                               \<comment> \<open>\<^verbatim>\<open>shape\<close>, \<^verbatim>\<open>mult\<close>, label\<close>
  | MeanStream nat             \<comment> \<open>\<^verbatim>\<open>cap\<close>\<close>
  | Constant "real list list"  \<comment> \<open>\<^verbatim>\<open>ne.layers.Constant(mat)\<close>, called on no tensor\<close>
  | Lambda lam
  | Divide                     \<comment> \<open>\<^verbatim>\<open>x / y\<close> on tensors\<close>
  | Multiply                   \<comment> \<open>\<^verbatim>\<open>x * y\<close> on tensors\<close>
  | Average                    \<comment> \<open>\<^verbatim>\<open>KL.average\<close>\<close>
  | InvertAffine
  | SliceColumns nat           \<comment> \<open>\<^verbatim>\<open>x[:, :k]\<close>\<close>
  | ParamsToAffineMatrix nat   \<comment> \<open>\<^verbatim>\<open>ndims\<close>\<close>
  | ComposeTransform "bool option"
                               \<comment> \<open>\<^verbatim>\<open>shift_center\<close>\<close>
  | AffineToDenseShift "nat list" "bool option"
                               \<comment> \<open>\<^verbatim>\<open>shape\<close>, \<^verbatim>\<open>shift_center\<close>\<close>
  | Det                        \<comment> \<open>the feature detector \<^verbatim>\<open>det\<close> of VxmAffineFeatureDetector\<close>
  | ModelDef                   \<comment> \<open>the deformable network \<^verbatim>\<open>model_def\<close> of HyperVxmJoint\<close>

datatype tensor =
    Input string "nat list"    \<comment> \<open>\<^verbatim>\<open>tf.keras.Input(shape)\<close>, with a label that tells inputs apart\<close>
  | Call layer "tensor list"   \<comment> \<open>\<^verbatim>\<open>layer(tensors)\<close>\<close>

record keras_model =
  inputs :: "tensor list"
  outputs :: "tensor list"

text \<open>All layers that a tensor is computed with, the outermost first.\<close>

fun layers_of :: "tensor \<Rightarrow> layer list" where
  "layers_of (Input n s) = []"
| "layers_of (Call l ts) = l # concat (map layers_of ts)"

text \<open>
  Calling a model on new tensors, \<^verbatim>\<open>model((x, y))\<close>: Keras applies the layers of the model
  again, with the given tensors in the place of the model's inputs.
\<close>

fun substitute :: "(tensor \<times> tensor) list \<Rightarrow> tensor \<Rightarrow> tensor" where
  "substitute \<sigma> (Input n s) = (case map_of \<sigma> (Input n s) of None \<Rightarrow> Input n s | Some t \<Rightarrow> t)"
| "substitute \<sigma> (Call l ts) = Call l (map (substitute \<sigma>) ts)"

definition call_model :: "keras_model \<Rightarrow> tensor list \<Rightarrow> tensor list" where
  "call_model m xs = map (substitute (zip (inputs m) xs)) (outputs m)"

subsection \<open>Running a graph\<close>

text \<open>
  A run assigns a value to every input and a function to every layer. The value type is
  left open. \<open>keras\<close> fixes, over lists of reals, the two layers whose arithmetic the
  properties below rely on: \<^verbatim>\<open>ne.layers.Negate\<close> returns \<^verbatim>\<open>-x\<close>, and
  \<^verbatim>\<open>KL.average\<close> adds its inputs element by element and divides by their number (Keras
  accepts inputs of one common shape only). Every other layer is a parameter.
\<close>

fun eval :: "(layer \<Rightarrow> 'v list \<Rightarrow> 'v) \<Rightarrow> (string \<Rightarrow> 'v) \<Rightarrow> tensor \<Rightarrow> 'v" where
  "eval ext env (Input n s) = env n"
| "eval ext env (Call l ts) = ext l (map (eval ext env) ts)"

fun add_all :: "real list \<Rightarrow> real list list \<Rightarrow> real list" where
  "add_all acc [] = acc"
| "add_all acc (v # vs) = add_all (map2 (+) acc v) vs"

definition average :: "real list list \<Rightarrow> real list" where
  "average vs = (case vs of [] \<Rightarrow> [] | v # rest \<Rightarrow> map (\<lambda>x. x / real (length vs)) (add_all v rest))"

definition keras :: "(layer \<Rightarrow> real list list \<Rightarrow> real list) \<Rightarrow> layer \<Rightarrow> real list list \<Rightarrow> real list" where
  "keras ext l vs =
     (case (l, vs) of
        (Negate, [v]) \<Rightarrow> map uminus v
      | (Average, _) \<Rightarrow> average vs
      | _ \<Rightarrow> ext l vs)"


subsection \<open>VxmDense\<close>

text \<open>
  \<^verbatim>\<open>Unet.__init__\<close>, as VxmDense calls it (always with an input model).
  \<^verbatim>\<open>nb_features\<close> is an integer, a pair of lists, or \<open>None\<close> for the lists of
  \<^verbatim>\<open>default_unet_features()\<close>, which the docstring of the class gives. The lists matter
  by their lengths only: \<open>feature_counts\<close> is the pair of \<^verbatim>\<open>len(enc_nf)\<close> and of the
  length of the full \<^verbatim>\<open>dec_nf\<close>. For an integer, \<^verbatim>\<open>feats\<close> has \<^verbatim>\<open>nb_levels\<close>
  entries, the encoder list repeats all but the last of them and the decoder list repeats
  all of them, \<^verbatim>\<open>nb_conv_per_level\<close> times each.
\<close>

datatype unet_features = FeatInt nat | FeatLists "nat list" "nat list"

definition default_unet_features :: "nat list \<times> nat list" where
  "default_unet_features = ([16, 32, 32, 32], [32, 32, 32, 32, 32, 16, 16])"

definition feature_counts :: "unet_features option \<Rightarrow> nat option \<Rightarrow> nat \<Rightarrow> nat \<times> nat" where
  "feature_counts nb_features nb_levels nb_conv_per_level =
     (case nb_features of
        None \<Rightarrow> (length (fst default_unet_features), length (snd default_unet_features))
      | Some (FeatInt n) \<Rightarrow>
          (let levels = (case nb_levels of None \<Rightarrow> 0 | Some l \<Rightarrow> l)
           in ((levels - 1) * nb_conv_per_level, levels * nb_conv_per_level))
      | Some (FeatLists enc_nf dec_nf) \<Rightarrow> (length enc_nf, length dec_nf))"

text \<open>
  The constructor fails in four places: its two \<^verbatim>\<open>raise\<close> statements on the feature
  configuration; \<^verbatim>\<open>int(nb_dec_convs / nb_conv_per_level)\<close>, a division by zero when
  there are no convolutions per level; and \<^verbatim>\<open>dec_nf[level * nb_conv_per_level + conv]\<close>
  in the decoder, where \<^verbatim>\<open>dec_nf\<close> has been cut to \<^verbatim>\<open>nb_dec_convs\<close> entries and the
  index runs up to \<open>(nb_dec_convs div nb_conv_per_level) \<cdot> nb_conv_per_level - 1\<close>.
  (Its assertion on the number of dimensions repeats the one VxmDense has already made.)
  The convolutions are one layer.
\<close>

definition Unet :: "keras_model \<Rightarrow> unet_features option \<Rightarrow> nat option \<Rightarrow> nat \<Rightarrow> tensor option
    \<Rightarrow> error + tensor" where
  "Unet im nb_features nb_levels nb_conv_per_level hyp_tensor =
     (let unet_input = (case outputs im of [t] \<Rightarrow> t | ts \<Rightarrow> Call Concatenate ts);
          last = Call UnetBody (unet_input # (case hyp_tensor of None \<Rightarrow> [] | Some h \<Rightarrow> [h]));
          is_int = (case nb_features of Some (FeatInt n) \<Rightarrow> True | _ \<Rightarrow> False);
          (nb_dec_convs, nb_dec) = feature_counts nb_features nb_levels nb_conv_per_level
      in if is_int \<and> nb_levels = None
         then Inl (ValueError ''must provide unet nb_levels if nb_features is an integer'')
         else if \<not> is_int \<and> nb_levels \<noteq> None
         then Inl (ValueError ''cannot use nb_levels if nb_features is not an integer'')
         else if nb_conv_per_level = 0
         then Inl (ZeroDivisionError ''division by zero'')
         else if min nb_dec nb_dec_convs
                   < (nb_dec_convs div nb_conv_per_level) * nb_conv_per_level
         then Inl (IndexError ''list index out of range'')
         else Inr last)"

text \<open>
  The arguments of \<^verbatim>\<open>VxmDense.__init__\<close>. \<^verbatim>\<open>unet_feat_mult\<close> only shapes the
  convolutions and is left out. A
  hypernetwork \<^verbatim>\<open>hyp_model\<close> is given by its input and its output tensor.
  \<open>unet_output_size\<close> is not an argument: it stands for \<^verbatim>\<open>flow.shape[1:-1]\<close>, the
  spatial size of what the U-Net returns, which Keras reads off the tensor; it has one
  entry per dimension.
\<close>

record vxm_dense_args =
  inshape :: "nat list"
  nb_unet_features :: "unet_features option"
  nb_unet_levels :: "nat option"
  nb_unet_conv_per_level :: nat
  int_steps :: int
  svf_resolution :: real
  int_resolution :: real
  int_downsize :: "real option"
  bidir :: bool
  use_probs :: bool
  src_feats :: nat
  trg_feats :: nat
  unet_half_res :: bool
  input_model :: "keras_model option"
  hyp_model :: "(tensor \<times> tensor) option"
  fill_value :: "real option"
  reg_field :: string
  name :: string
  unet_output_size :: "nat list"

text \<open>
  The model with its \<^verbatim>\<open>references\<close> container: \<open>ref_svf\<close> is
  \<^verbatim>\<open>self.references.svf\<close>, and so on. (\<^verbatim>\<open>references.unet_model\<close> is not kept.)
\<close>

record vxm_dense = keras_model +
  ref_source :: tensor
  ref_target :: tensor
  ref_svf :: tensor
  ref_preint_flow :: tensor
  ref_postint_flow :: tensor
  ref_pos_flow :: tensor
  ref_neg_flow :: "tensor option"
  ref_y_source :: tensor
  ref_y_target :: "tensor option"
  ref_hyp_input :: "tensor option"

text \<open>
  Lines 148 to 226, block by block; each definition carries the comment that heads the
  block in the source. The deprecated arguments have been applied to \<open>int_resolution a\<close>
  and \<open>svf_resolution a\<close> by then. A rescaling factor is a quotient of two grid sizes;
  for an empty grid numpy yields \<^verbatim>\<open>inf\<close> or \<^verbatim>\<open>nan\<close> where HOL's \<open>x / 0\<close> is \<open>0\<close>,
  and nothing below depends on the value of a factor.
\<close>

definition svf_size :: "vxm_dense_args \<Rightarrow> real list" where
  "svf_size a = map (\<lambda>dim. np_round (real dim / svf_resolution a)) (inshape a)"

definition int_size :: "vxm_dense_args \<Rightarrow> real list" where
  "int_size a = map (\<lambda>dim. np_round (real dim / int_resolution a)) (inshape a)"

text \<open>``transform unet output into a flow field'', ``optionally include probabilities'':
  the flow and \<^verbatim>\<open>flow_params\<close>.\<close>

definition predicted_flow :: "vxm_dense_args \<Rightarrow> tensor \<Rightarrow> tensor \<times> tensor" where
  "predicted_flow a unet_output =
    (let ndims = length (inshape a);
         flow_mean = Call (Conv ''flow'' ndims) [unet_output];
         flow_logsigma = Call (Conv ''log_sigma'' ndims) [unet_output];
         flow_params = Call Concatenate [flow_mean, flow_logsigma];
         flow = (if use_probs a then Call SampleNormalLogVar [flow_mean, flow_logsigma]
                 else flow_mean)
     in (flow, flow_params))"

text \<open>``rescale field to target svf resolution''\<close>

definition rescale_to_svf_resolution :: "vxm_dense_args \<Rightarrow> tensor \<Rightarrow> tensor" where
  "rescale_to_svf_resolution a flow =
    (let pre_svf_size = map real (unet_output_size a) in
     if pre_svf_size \<noteq> svf_size a
     then Call (RescaleTransform (hd (svf_size a) / hd pre_svf_size)) [flow]
     else flow)"

text \<open>``rescale field to target integration resolution''\<close>

definition rescale_to_int_resolution :: "vxm_dense_args \<Rightarrow> tensor \<Rightarrow> tensor" where
  "rescale_to_int_resolution a flow =
    (if int_steps a > 0 \<and> int_resolution a > 1
     then (if svf_size a \<noteq> int_size a
           then Call (RescaleTransform (hd (int_size a) / hd (svf_size a))) [flow]
           else flow)
     else flow)"

text \<open>``integrate to produce diffeomorphic warp (i.e. treat flow as a stationary velocity
  field)''\<close>

definition integrate :: "vxm_dense_args \<Rightarrow> tensor \<Rightarrow> tensor" where
  "integrate a flow =
    (if int_steps a > 0 then Call (VecInt ''ss'' (int_steps a)) [flow] else flow)"

text \<open>``resize to final resolution''\<close>

definition resize_to_final_resolution :: "vxm_dense_args \<Rightarrow> tensor \<Rightarrow> tensor" where
  "resize_to_final_resolution a flow =
    (if int_steps a > 0 \<and> int_resolution a > 1
     then Call (RescaleTransform (real (hd (inshape a)) / hd (int_size a))) [flow]
     else flow)"

text \<open>
  The blocks in sequence, with the caching assignments between them. The result is the
  model as it stands before the regularization output is chosen (\<open>outputs\<close> holds
  \<^verbatim>\<open>[y_source, y_target] if bidir else [y_source]\<close>), together with \<^verbatim>\<open>flow_params\<close>.
\<close>

definition flow_fields ::
    "vxm_dense_args \<Rightarrow> tensor list \<Rightarrow> tensor \<Rightarrow> tensor \<Rightarrow> tensor option \<Rightarrow> tensor
      \<Rightarrow> vxm_dense \<times> tensor" where
  "flow_fields a model_inputs source target hyp_input unet_output =
    (let (flow, flow_params) = predicted_flow a unet_output;
         flow = rescale_to_svf_resolution a flow;
         svf = flow;
         flow = rescale_to_int_resolution a flow;
         preint_flow = flow;
         pos_flow = flow;
         neg_flow = Call Negate [flow];
         pos_flow = integrate a pos_flow;
         neg_flow = integrate a neg_flow;
         postint_flow = pos_flow;
         pos_flow = resize_to_final_resolution a pos_flow;
         neg_flow = resize_to_final_resolution a neg_flow;
         y_source = Call (SpatialTransformer (Some ''linear'') (fill_value a) None None)
                      [source, pos_flow];
         y_target = Call (SpatialTransformer (Some ''linear'') (fill_value a) None None)
                      [target, neg_flow];
         outputs = (if bidir a then [y_source, y_target] else [y_source])
     in (\<lparr>inputs = model_inputs, outputs = outputs,
          ref_source = source, ref_target = target, ref_svf = svf,
          ref_preint_flow = preint_flow, ref_postint_flow = postint_flow,
          ref_pos_flow = pos_flow,
          ref_neg_flow = (if bidir a then Some neg_flow else None),
          ref_y_source = y_source,
          ref_y_target = (if bidir a then Some y_target else None),
          ref_hyp_input = hyp_input\<rparr>, flow_params))"

text \<open>Lines 105 to 111, ``configure default input layers if an input model is not provided''.\<close>

definition default_input_model :: "vxm_dense_args \<Rightarrow> keras_model" where
  "default_input_model a =
    (case input_model a of
       None \<Rightarrow>
         (let source = Input (name a @ ''_source_input'') (inshape a @ [src_feats a]);
              target = Input (name a @ ''_target_input'') (inshape a @ [trg_feats a])
          in \<lparr>inputs = [source, target], outputs = [source, target]\<rparr>)
     | Some m \<Rightarrow> m)"

text \<open>Lines 113 to 122, ``configure inputs''.\<close>

definition configure_inputs :: "vxm_dense_args \<Rightarrow> keras_model \<Rightarrow> tensor list" where
  "configure_inputs a im =
    (case hyp_model a of
       None \<Rightarrow> inputs im
     | Some h \<Rightarrow> if fst h \<in> set (inputs im) then inputs im else inputs im @ [fst h])"

text \<open>Lines 124 to 131: the deprecated arguments overwrite the current ones.\<close>

definition apply_deprecated :: "vxm_dense_args \<Rightarrow> vxm_dense_args" where
  "apply_deprecated a =
    (let a = (case int_downsize a of None \<Rightarrow> a | Some d \<Rightarrow> a\<lparr>int_resolution := d\<rparr>)
     in if unet_half_res a then a\<lparr>svf_resolution := 2\<rparr> else a)"

text \<open>
  Lines 101 to 146, the checks and the inputs, followed by the blocks above. Line 133,
  \<^verbatim>\<open>nb_upsample_skips = int(np.floor(np.log(svf_resolution) / np.log(2)))\<close>, fails for
  a resolution that is not positive: numpy's logarithm is \<^verbatim>\<open>nan\<close> below zero and
  \<^verbatim>\<open>-inf\<close> at zero, and \<^verbatim>\<open>int\<close> converts neither. The number itself only shapes the
  U-Net.
\<close>

definition VxmDense_flow :: "vxm_dense_args \<Rightarrow> error + vxm_dense \<times> tensor" where
  "VxmDense_flow a =
    (let ndims = length (inshape a) in
     if ndims \<notin> {1, 2, 3}
     then Inl (AssertionError (''ndims should be one of 1, 2, or 3. found: '' @ str_nat ndims))
     else
      let input_model = default_input_model a in
      case outputs input_model of
        source # target # _ \<Rightarrow>
         (let inputs = configure_inputs a input_model;
              hyp_input = map_option fst (hyp_model a);
              hyp_tensor = map_option snd (hyp_model a);
              a = apply_deprecated a
          in
          if svf_resolution a < 0
          then Inl (ValueError ''cannot convert float NaN to integer'')
          else if svf_resolution a = 0
          then Inl (OverflowError ''cannot convert float infinity to integer'')
          else
           (case Unet input_model (nb_unet_features a) (nb_unet_levels a)
                   (nb_unet_conv_per_level a) hyp_tensor of
              Inl e \<Rightarrow> Inl e
            | Inr unet_output \<Rightarrow>
                Inr (flow_fields a inputs source target hyp_input unet_output)))
      | _ \<Rightarrow> Inl (ValueError ''not enough values to unpack (expected 2)''))"

text \<open>Lines 228 to 246: the regularization output, appended to the warped images.\<close>

definition unknown_reg_field :: "string \<Rightarrow> string" where
  "unknown_reg_field r = ''Unknown option '' @ [CHR 0x22] @ r @ [CHR 0x22] @ '' for reg_field.''"

definition append_output :: "vxm_dense \<Rightarrow> tensor \<Rightarrow> vxm_dense" where
  "append_output m t = m\<lparr>outputs := outputs m @ [t]\<rparr>"

definition VxmDense :: "vxm_dense_args \<Rightarrow> error + vxm_dense" where
  "VxmDense a =
    (case VxmDense_flow a of
       Inl e \<Rightarrow> Inl e
     | Inr (m, flow_params) \<Rightarrow>
        (let reg_field = lower (reg_field a) in
         if use_probs a then Inr (append_output m flow_params)
         else if reg_field = ''svf'' then Inr (append_output m (ref_svf m))
         else if reg_field = ''preintegrated'' then Inr (append_output m (ref_preint_flow m))
         else if reg_field = ''postintegrated'' then Inr (append_output m (ref_postint_flow m))
         else if reg_field = ''warp'' then Inr (append_output m (ref_pos_flow m))
         else Inl (ValueError (unknown_reg_field reg_field))))"

subsection \<open>InstanceDense\<close>

text \<open>\<^verbatim>\<open>int(x)\<close> on a float: truncation towards zero.\<close>

definition py_int :: "real \<Rightarrow> int" where
  "py_int x = (if 0 \<le> x then \<lfloor>x\<rfloor> else \<lceil>x\<rceil>)"

text \<open>
  A number held in a \<^verbatim>\<open>float32\<close> array or tensor, the type of the weights and fields
  of the models of this file: a real, or one of \<^verbatim>\<open>inf\<close>, \<^verbatim>\<open>-inf\<close>, \<^verbatim>\<open>nan\<close>,
  which are not told apart. The two zeros are one number.
\<close>

datatype npfloat = Finite real | NonFinite

text \<open>
  Rounding to \<^verbatim>\<open>float32\<close> (IEEE binary32, to the nearest number, a tie to the even
  neighbour). The numbers have 24 significant bits and exponents from \<open>-126\<close> to
  \<open>127\<close>: a real \<open>x\<close> with \<open>2 powi e \<le> \<bar>x\<bar> < 2 powi (e + 1)\<close> is rounded to a
  multiple of \<open>2 powi (e - 23)\<close>. Below \<open>2 powi (- 126)\<close> the spacing stays
  \<open>2 powi (- 149)\<close> (the subnormal numbers), and a result of \<open>2 ^ 128\<close> or more is
  \<^verbatim>\<open>inf\<close>. \<open>f32_exponent n x\<close> is the largest \<open>e\<close> from \<open>-125\<close> to \<open>n - 126\<close>
  with \<open>2 powi e \<le> \<bar>x\<bar>\<close>, and \<open>-126\<close> if there is none.
\<close>

fun f32_exponent :: "nat \<Rightarrow> real \<Rightarrow> int" where
  "f32_exponent 0 x = - 126"
| "f32_exponent (Suc n) x =
     (if 2 powi (int n - 125) \<le> \<bar>x\<bar> then int n - 125 else f32_exponent n x)"




text \<open>
  The arguments of \<^verbatim>\<open>InstanceDense.__init__\<close>, each with the prefix \<open>inst_\<close>, and the
  model object: the graph, the \<^verbatim>\<open>references\<close> container (\<^verbatim>\<open>pos_flow\<close>,
  \<^verbatim>\<open>flow_layer\<close>, \<^verbatim>\<open>mult\<close>) and the weights that the flow layer holds, which
  \<^verbatim>\<open>set_flow\<close> overwrites. The initial weights are drawn at random by the layer's
  initializer and so are a parameter of the constructor here.
\<close>

record instance_dense_args =
  inst_inshape :: "nat list"
  inst_nb_feats :: nat
  inst_mult :: real
  inst_int_steps :: int
  inst_int_downsize :: "real option"
  inst_int_resolution :: real

record instance_dense = keras_model +
  iref_pos_flow :: tensor
  iref_flow_layer :: layer
  iref_mult :: real
  flow_layer_weights :: "npfloat list"

text \<open>\<^verbatim>\<open>InstanceDense.__init__\<close>, lines 518 to 551.\<close>

definition InstanceDense :: "instance_dense_args \<Rightarrow> npfloat list \<Rightarrow> error + instance_dense" where
  "InstanceDense a initial_weights =
    (let int_resolution =
           (case inst_int_downsize a of None \<Rightarrow> inst_int_resolution a | Some d \<Rightarrow> d)
     in
     if inst_inshape a \<noteq> [] \<and> int_resolution = 0
     then Inl (ZeroDivisionError ''float division by zero'')
     else
      let ds_warp_shape = map (\<lambda>dim. py_int (real dim / int_resolution)) (inst_inshape a);
          source = Input ''source'' (inst_inshape a @ [inst_nb_feats a]);
          flow_layer = LocalParamWithInput (ds_warp_shape @ [int (length (inst_inshape a))])
                         (inst_mult a) [];
          preint_flow = Call flow_layer [source];
          pos_flow = preint_flow;
          pos_flow = (if inst_int_steps a > 0
                      then (let pos_flow = Call (VecInt ''ss'' (inst_int_steps a)) [pos_flow]
                            in if int_resolution > 1
                               then Call (RescaleTransform int_resolution) [pos_flow]
                               else pos_flow)
                      else pos_flow);
          y_source = Call (SpatialTransformer (Some ''linear'') None None None) [source, pos_flow]
      in Inr \<lparr>inputs = [source], outputs = [y_source, preint_flow],
               iref_pos_flow = pos_flow, iref_flow_layer = flow_layer, iref_mult = inst_mult a,
               flow_layer_weights = initial_weights\<rparr>)"



subsection \<open>VxmAffineFeatureDetector\<close>

text \<open>
  The arguments of \<^verbatim>\<open>VxmAffineFeatureDetector.__init__\<close>, each with the prefix \<open>aff_\<close>.
  Of the arguments that shape the convolutions of the feature detector, \<^verbatim>\<open>enc_nf\<close> and
  \<^verbatim>\<open>dec_nf\<close> are kept, for their lengths; \<^verbatim>\<open>num_feat\<close>, \<^verbatim>\<open>add_nf\<close>,
  \<^verbatim>\<open>per_level\<close> and \<^verbatim>\<open>dropout\<close> are left out. \<open>aff_in_shape\<close> is the spatial shape of the data inputs: \<^verbatim>\<open>in_shape\<close>,
  or \<^verbatim>\<open>inp_1.shape[1:-1]\<close> when an input model is given. \<open>aff_float16\<close> is not an
  argument: it says whether the global mixed-precision policy computes in \<^verbatim>\<open>float16\<close>.
\<close>

record affine_args =
  aff_in_shape :: "nat list"
  aff_input_model :: "keras_model option"
  aff_num_chan :: nat
  aff_enc_nf :: "nat list"
  aff_dec_nf :: "nat list"
  aff_half_res :: bool
  aff_weighted :: bool
  aff_rigid :: bool
  aff_make_dense :: bool
  aff_bidir :: bool
  aff_return_trans_to_mid_space :: bool
  aff_return_trans_to_half_res :: bool
  aff_return_moved :: bool
  aff_return_feat :: bool
  aff_float16 :: bool

text \<open>
  ``Static transforms. Function names reflect effect on coordinates.'' The matrix is
  \<^verbatim>\<open>np.eye(num_dim + 1)\<close> with the vector \<open>t\<close> written over the first \<open>num_dim\<close>
  entries of the last column.
\<close>

definition eye_with_translation :: "nat \<Rightarrow> real list \<Rightarrow> real list list" where
  "eye_with_translation num_dim t =
     map (\<lambda>i. map (\<lambda>j. if i = j then 1 else 0) [0..<num_dim] @ [t ! i]) [0..<num_dim]
     @ [replicate num_dim 0 @ [1]]"

definition cen :: "nat \<Rightarrow> nat list \<Rightarrow> tensor" where
  "cen num_dim shape =
     Call (Constant (eye_with_translation num_dim (map (\<lambda>s. - 0.5 * (real s - 1)) shape))) []"

definition un_cen :: "nat \<Rightarrow> nat list \<Rightarrow> tensor" where
  "un_cen num_dim shape =
     Call (Constant (eye_with_translation num_dim (map (\<lambda>s. 0.5 * (real s - 1)) shape))) []"

text \<open>\<^verbatim>\<open>np.diag((*[fact] * num_dim, 1))\<close>\<close>

definition scale :: "nat \<Rightarrow> real \<Rightarrow> tensor" where
  "scale num_dim factor =
     Call (Constant (map (\<lambda>i. map (\<lambda>j. if i = j then (if i < num_dim then factor else 1) else 0)
                                [0..<num_dim + 1]) [0..<num_dim + 1])) []"

text \<open>``Barycenters.'' and ``Channel weights.'', lines 1392 to 1403.\<close>

definition barycenter :: "nat list \<Rightarrow> tensor \<Rightarrow> tensor" where
  "barycenter shape_full feat = Call (Lambda (Barycenter shape_full)) [feat]"

definition channel_weights :: "tensor \<Rightarrow> tensor \<Rightarrow> tensor" where
  "channel_weights feat_1 feat_2 =
    (let pow_1 = Call (Lambda ReduceSumSpatial) [feat_1];
         pow_2 = Call (Lambda ReduceSumSpatial) [feat_2];
         pow_1 = Call Divide [pow_1, Call (Lambda ReduceSumChannels) [pow_1]];
         pow_2 = Call Divide [pow_2, Call (Lambda ReduceSumChannels) [pow_2]]
     in Call Multiply [pow_1, pow_2])"

text \<open>``Least squares and average, since the fit is not symmetric.'', lines 1405 to 1413.\<close>

definition fit_and_average :: "bool \<Rightarrow> tensor \<Rightarrow> tensor \<Rightarrow> tensor \<Rightarrow> tensor" where
  "fit_and_average weighted cen_1 cen_2 weights =
    (let fit_1 = [cen_1, cen_2];
         fit_2 = [cen_2, cen_1];
         fit_1 = (if weighted then fit_1 @ [weights] else fit_1);
         fit_2 = (if weighted then fit_2 @ [weights] else fit_2);
         aff_1 = Call (Lambda FitAffine) fit_1;
         aff_2 = Call (Lambda FitAffine) fit_2
     in Call Average [Call InvertAffine [aff_2], aff_1])"

text \<open>``Remove scaling and shear.'', lines 1415 to 1419.\<close>

definition remove_scaling_and_shear :: "bool \<Rightarrow> nat \<Rightarrow> tensor \<Rightarrow> tensor" where
  "remove_scaling_and_shear rigid num_dim aff_1 =
    (if rigid
     then (let aff_1 = Call (Lambda AffineMatrixToParams) [aff_1];
               aff_1 = Call (SliceColumns (num_dim * (num_dim + 1) div 2)) [aff_1]
           in Call (ParamsToAffineMatrix num_dim) [aff_1])
     else aff_1)"

text \<open>``Mid-space. Before scaling at either side.'', lines 1421 to 1428: the pair
  \<^verbatim>\<open>(aff_1, aff_2)\<close>.\<close>

definition mid_space_transforms :: "bool \<Rightarrow> tensor \<Rightarrow> tensor \<times> tensor" where
  "mid_space_transforms return_trans_to_mid_space aff_1 =
    (let aff_2 = Call InvertAffine [aff_1] in
     if return_trans_to_mid_space
     then (Call (Lambda Sqrtm) [Call (Lambda MakeSquareAffine) [aff_1]],
           Call (Lambda Sqrtm) [Call (Lambda MakeSquareAffine) [aff_2]])
     else (aff_1, aff_2))"

text \<open>``Affine transform operating in index space, for full-resolution inputs.'',
  lines 1430 to 1433.\<close>

definition index_space :: "nat \<Rightarrow> nat list \<Rightarrow> tensor \<Rightarrow> tensor" where
  "index_space num_dim shape_full aff =
     Call (ComposeTransform (Some False)) [un_cen num_dim shape_full, aff, cen num_dim shape_full]"

text \<open>\<^verbatim>\<open>out[::2]\<close>\<close>

fun every_second :: "'a list \<Rightarrow> 'a list" where
  "every_second (x # y # xs) = x # every_second xs"
| "every_second xs = xs"

text \<open>Lines 1436 to 1458: from the two index-space matrices to the list of outputs.
  \<open>moved\<close> is \<^verbatim>\<open>[mov_1, mov_2]\<close> if \<^verbatim>\<open>return_moved\<close> is set and empty otherwise.\<close>

definition shape_out :: "affine_args \<Rightarrow> nat list" where
  "shape_out a =
     (if aff_return_trans_to_half_res a then map (\<lambda>s. s div 2) (aff_in_shape a)
      else aff_in_shape a)"

definition moved_images :: "affine_args \<Rightarrow> tensor list \<Rightarrow> tensor \<Rightarrow> tensor \<Rightarrow> error + tensor list" where
  "moved_images a model_inputs aff_1 aff_2 =
    (if aff_return_moved a
     then (case model_inputs of
             input_1 # input_2 # _ \<Rightarrow>
               Inr [Call (SpatialTransformer None (Some 0) (Some (shape_out a)) (Some False))
                      [input_1, aff_1],
                    Call (SpatialTransformer None (Some 0) (Some (shape_out a)) (Some False))
                      [input_2, aff_2]]
           | _ \<Rightarrow> Inl (IndexError ''list index out of range''))
     else Inr [])"

definition detector_outputs ::
    "affine_args \<Rightarrow> tensor \<Rightarrow> tensor \<Rightarrow> tensor \<Rightarrow> tensor \<Rightarrow> tensor list \<Rightarrow> tensor list" where
  "detector_outputs a feat_1 feat_2 aff_1 aff_2 moved =
    (let num_dim = length (aff_in_shape a);
         out = [aff_1, aff_2];
         out = (if aff_return_trans_to_half_res a
                then map (\<lambda>x. Call (ComposeTransform (Some False)) [x, scale num_dim 2]) out
                else out);
         out = (if aff_float16 a then map (\<lambda>x. Call (Lambda CastFloat16) [x]) out else out);
         out = (if aff_make_dense a
                then map (\<lambda>x. Call (AffineToDenseShift (shape_out a) (Some False)) [x]) out
                else out);
         out = out @ moved;
         out = (if aff_return_feat a then out @ [feat_1, feat_2] else out)
     in if \<not> aff_bidir a then every_second out else out)"

text \<open>
  ``Detector inputs.'' to ``Always sum and fit affine with single precision.'', lines 1348
  to 1390, for one of the two images: the feature maps computed from it.
\<close>

definition detector_features :: "affine_args \<Rightarrow> tensor \<Rightarrow> tensor" where
  "detector_features a inp =
    (let shape_half = map (\<lambda>s. s div 2) (aff_in_shape a);
         num_dim = length (aff_in_shape a);
         inp = (if aff_half_res a
                then Call (SpatialTransformer None (Some 0) (Some shape_half) (Some False))
                       [inp, scale num_dim 2]
                else inp);
         feat = Call Det [inp]
     in if aff_float16 a then Call (Lambda CastFloat32) [feat] else feat)"

text \<open>Lines 1392 to 1428: from the feature maps to the pair \<^verbatim>\<open>(aff_1, aff_2)\<close> in the
  centered frame.\<close>

definition affine_estimate :: "affine_args \<Rightarrow> tensor \<Rightarrow> tensor \<Rightarrow> tensor \<times> tensor" where
  "affine_estimate a feat_1 feat_2 =
    (let shape_full = aff_in_shape a;
         num_dim = length shape_full;
         cen_1 = barycenter shape_full feat_1;
         cen_2 = barycenter shape_full feat_2;
         weights = channel_weights feat_1 feat_2;
         aff_1 = fit_and_average (aff_weighted a) cen_1 cen_2 weights;
         aff_1 = remove_scaling_and_shear (aff_rigid a) num_dim aff_1
     in mid_space_transforms (aff_return_trans_to_mid_space a) aff_1)"

text \<open>
  The inputs of the detector when no input model is given (lines 1312 to 1316), and the
  whole constructor. The decoder of the feature detector takes one tensor off the list
  \<^verbatim>\<open>enc\<close> per entry of \<^verbatim>\<open>dec_nf\<close> (\<^verbatim>\<open>enc.pop()\<close>, line 1373); the list has one
  tensor per entry of \<^verbatim>\<open>enc_nf\<close>.
\<close>

definition detector_input_model :: "affine_args \<Rightarrow> keras_model" where
  "detector_input_model a =
    (case aff_input_model a of
       None \<Rightarrow>
         (let inp_1 = Input ''inp_1'' (aff_in_shape a @ [aff_num_chan a]);
              inp_2 = Input ''inp_2'' (aff_in_shape a @ [aff_num_chan a])
          in \<lparr>inputs = [inp_1, inp_2], outputs = [inp_1, inp_2]\<rparr>)
     | Some m \<Rightarrow> m)"

definition VxmAffineFeatureDetector :: "affine_args \<Rightarrow> error + keras_model" where
  "VxmAffineFeatureDetector a =
    (let input_model = detector_input_model a in
     case outputs input_model of
       inp_1 # inp_2 # _ \<Rightarrow>
        (let shape_full = aff_in_shape a;
             num_dim = length shape_full
         in
         if num_dim \<notin> {2, 3} then Inl (AssertionError ''only 2D and 3D supported'')
         else if aff_return_trans_to_half_res a \<and> \<not> aff_half_res a
         then Inl (AssertionError ''only for `half_res=True`'')
         else if length (aff_enc_nf a) < length (aff_dec_nf a)
         then Inl (IndexError ''pop from empty list'')
         else
          let feat_1 = detector_features a inp_1;
              feat_2 = detector_features a inp_2;
              (aff_1, aff_2) = affine_estimate a feat_1 feat_2;
              aff_1 = index_space num_dim shape_full aff_1;
              aff_2 = index_space num_dim shape_full aff_2
          in
          case moved_images a (inputs input_model) aff_1 aff_2 of
            Inl e \<Rightarrow> Inl e
          | Inr moved \<Rightarrow>
              Inr \<lparr>inputs = inputs input_model,
                   outputs = detector_outputs a feat_1 feat_2 aff_1 aff_2 moved\<rparr>)
     | _ \<Rightarrow> Inl (ValueError ''not enough values to unpack (expected 2)''))"

subsection \<open>HyperVxmJoint\<close>

text \<open>
  The arguments of \<^verbatim>\<open>HyperVxmJoint.__init__\<close>, each with the prefix \<open>joint_\<close>. Of the
  arguments that shape the convolutions only \<^verbatim>\<open>enc_nf\<close> and \<^verbatim>\<open>dec_nf\<close> are kept, for
  the assertion on their lengths. The keyword arguments \<^verbatim>\<open>**kwargs\<close> come in two parts:
  \<open>joint_aff_kwargs\<close> holds the arguments passed with the prefix \<^verbatim>\<open>aff.\<close>, as a
  record of detector arguments in which an argument that is not passed has the detector's
  default; \<open>joint_other_kwargs\<close> lists the remaining keys. \<open>joint_in_shape\<close> is the
  spatial shape of the data inputs, as for the detector. \<open>joint_tot_shape\<close> is not an
  argument: it stands for \<^verbatim>\<open>tot_1.shape[1:-1]\<close>, which Keras reads off the tensor.
\<close>

record joint_args =
  joint_in_shape :: "nat list"
  joint_input_model :: "keras_model option"
  joint_num_chan :: nat
  joint_hyp_num :: nat
  joint_enc_nf :: "nat list"
  joint_dec_nf :: "nat list"
  joint_int_steps :: int
  joint_bidir :: bool
  joint_pass_affine :: bool
  joint_skip_affine :: bool
  joint_skip_deform :: bool
  joint_mid_space :: bool
  joint_return_trans_to_half_res :: bool
  joint_return_tot :: bool
  joint_return_def :: bool
  joint_return_aff :: bool
  joint_return_svf :: bool
  joint_return_moved :: bool
  joint_aff_kwargs :: affine_args
  joint_other_kwargs :: "string list"
  joint_tot_shape :: "nat list"

text \<open>``Inputs.'', lines 1545 to 1557. \<^verbatim>\<open>*hyp_inp, full_1, full_2 = xs\<close> takes the last
  two elements of \<open>xs\<close> and leaves the others to \<^verbatim>\<open>hyp_inp\<close>.\<close>

definition joint_default_input_model :: "joint_args \<Rightarrow> keras_model" where
  "joint_default_input_model a =
    (case joint_input_model a of
       None \<Rightarrow>
         (let hyp_inp = Input ''hyp_inp'' [joint_hyp_num a];
              full_1 = Input ''full_1'' (joint_in_shape a @ [joint_num_chan a]);
              full_2 = Input ''full_2'' (joint_in_shape a @ [joint_num_chan a]);
              ins = (if joint_hyp_num a > 0 then [hyp_inp, full_1, full_2] else [full_1, full_2])
          in \<lparr>inputs = ins, outputs = ins\<rparr>)
     | Some m \<Rightarrow> m)"

definition unpack_star2 :: "'a list \<Rightarrow> ('a list \<times> 'a \<times> 'a) option" where
  "unpack_star2 xs = (case rev xs of y # x # r \<Rightarrow> Some (rev r, x, y) | _ \<Rightarrow> None)"

text \<open>``Affine network.'', lines 1564 to 1574: the arguments handed to the detector.\<close>

definition arg_aff :: "joint_args \<Rightarrow> affine_args" where
  "arg_aff a =
     (joint_aff_kwargs a)\<lparr>aff_in_shape := map (\<lambda>s. s div 2) (joint_in_shape a),
        aff_make_dense := False, aff_half_res := False, aff_bidir := True,
        aff_return_trans_to_mid_space := joint_mid_space a\<rparr>"

text \<open>Lines 1585 to 1587: the inputs at half resolution.\<close>

definition half_resolution :: "joint_args \<Rightarrow> tensor \<Rightarrow> tensor" where
  "half_resolution a full =
     Call (SpatialTransformer None (Some 0) (Some (map (\<lambda>s. s div 2) (joint_in_shape a)))
             (Some False))
       [full, scale (length (joint_in_shape a)) 2]"

text \<open>Lines 1599 to 1607 of the \<^verbatim>\<open>pass_affine\<close> branch: the affine transforms made
  from the extra input. The last four lines are those of the detector's mid-space block.\<close>

definition passed_affine :: "joint_args \<Rightarrow> tensor \<Rightarrow> tensor \<times> tensor" where
  "passed_affine a affine =
    (let num_dim = length (joint_in_shape a);
         aff_1 = affine;
         aff_1 = Call (ComposeTransform None) [scale num_dim 0.5, aff_1, scale num_dim 2]
     in mid_space_transforms (joint_mid_space a) aff_1)"

text \<open>``Deformable input. Affine transforms from full to half resolution.'', lines 1609
  to 1618: \<^verbatim>\<open>(aff_1, aff_2, mov_1, mov_2)\<close>.\<close>

definition deformable_input ::
    "joint_args \<Rightarrow> tensor \<Rightarrow> tensor \<Rightarrow> tensor \<Rightarrow> tensor \<Rightarrow> tensor \<Rightarrow> tensor
      \<Rightarrow> tensor \<times> tensor \<times> tensor \<times> tensor" where
  "deformable_input a full_1 full_2 ima_1 ima_2 aff_1 aff_2 =
    (let num_dim = length (joint_in_shape a);
         shape_half = map (\<lambda>s. s div 2) (joint_in_shape a);
         aff_1 = Call (ComposeTransform (Some False)) [scale num_dim 2, aff_1];
         aff_2 = Call (ComposeTransform (Some False)) [scale num_dim 2, aff_2];
         mov_1 = Call (SpatialTransformer None (Some 0) (Some shape_half) (Some False))
                   [full_1, aff_1];
         mov_2 = (if joint_mid_space a
                  then Call (SpatialTransformer None (Some 0) (Some shape_half) (Some False))
                         [full_2, aff_2]
                  else ima_2)
     in if joint_skip_affine a then (scale num_dim 2, scale num_dim 2, ima_1, ima_2)
        else (aff_1, aff_2, mov_1, mov_2))"

text \<open>``Deformable registration. Average for symmetry, before integration.'', lines 1667
  to 1676: the tensors \<^verbatim>\<open>svf_1\<close>, \<^verbatim>\<open>svf_2\<close>, \<^verbatim>\<open>def_1\<close>, \<^verbatim>\<open>def_2\<close> at the end of
  the block.\<close>

record registration =
  reg_svf_1 :: tensor
  reg_svf_2 :: tensor
  reg_def_1 :: tensor
  reg_def_2 :: tensor

definition deformable_registration :: "int \<Rightarrow> tensor list \<Rightarrow> tensor \<Rightarrow> tensor \<Rightarrow> registration" where
  "deformable_registration steps hyp_inp mov_1 mov_2 =
    (let svf_1 = Call ModelDef (hyp_inp @ [mov_1, mov_2]);
         svf_2 = Call ModelDef (hyp_inp @ [mov_2, mov_1]);
         svf_1 = Call Average [Call Negate [svf_2], svf_1];
         svf_2 = Call Negate [svf_1];
         def_1 = Call (VecInt ''ss'' steps) [svf_1];
         def_2 = Call (VecInt ''ss'' steps) [svf_2];
         def_1 = (if steps = 0 then svf_1 else def_1);
         def_2 = (if steps = 0 then svf_2 else def_2)
     in \<lparr>reg_svf_1 = svf_1, reg_svf_2 = svf_2, reg_def_1 = def_1, reg_def_2 = def_2\<rparr>)"

text \<open>``Total warps from full to half resolution.'', lines 1686 to 1694.\<close>

definition total_warp :: "joint_args \<Rightarrow> tensor \<Rightarrow> tensor \<Rightarrow> tensor" where
  "total_warp a aff def =
    (let num_dim = length (joint_in_shape a);
         tot = [aff, def, scale num_dim 0.5, aff];
         tot = (if \<not> joint_mid_space a \<or> joint_skip_affine a then take 2 tot else tot)
     in Call (ComposeTransform (Some False)) tot)"

text \<open>``Do not interpolate deformation fields with \<^verbatim>\<open>fill_value=0\<close>.'', lines 1696 to
  1704, for one direction: \<^verbatim>\<open>(tot, def, aff)\<close>.\<close>

definition to_full_resolution ::
    "joint_args \<Rightarrow> tensor \<Rightarrow> tensor \<Rightarrow> tensor \<Rightarrow> tensor \<times> tensor \<times> tensor" where
  "to_full_resolution a tot def aff =
    (let num_dim = length (joint_in_shape a);
         down = Call (AffineToDenseShift (joint_in_shape a) (Some False)) [scale num_dim 0.5]
     in if \<not> joint_return_trans_to_half_res a
        then (Call (ComposeTransform None) [tot, down],
              Call (ComposeTransform (Some False)) [scale num_dim 2, def, down],
              Call (ComposeTransform (Some False)) [aff, scale num_dim 0.5])
        else (tot, def, aff))"

text \<open>``Outputs.'', lines 1706 to 1724.\<close>

definition joint_outputs ::
    "joint_args \<Rightarrow> tensor \<Rightarrow> tensor \<Rightarrow> tensor \<times> tensor \<times> tensor \<Rightarrow> tensor \<times> tensor \<times> tensor
      \<Rightarrow> tensor \<Rightarrow> tensor \<Rightarrow> tensor list" where
  "joint_outputs a full_1 full_2 out_1 out_2 svf_1 svf_2 =
    (case (out_1, out_2) of ((tot_1, def_1, aff_1), (tot_2, def_2, aff_2)) \<Rightarrow>
     (let out = [];
          out = (if joint_return_tot a then out @ [tot_1, tot_2] else out);
          out = (if joint_return_def a then out @ [def_1, def_2] else out);
          out = (if joint_return_aff a then out @ [aff_1, aff_2] else out);
          out = (if joint_return_svf a then out @ [svf_1, svf_2] else out);
          mov_1 = Call (SpatialTransformer None (Some 0) (Some (joint_tot_shape a)) (Some False))
                    [full_1, tot_1];
          mov_2 = Call (SpatialTransformer None (Some 0) (Some (joint_tot_shape a)) (Some False))
                    [full_2, tot_2];
          out = (if joint_return_moved a then out @ [mov_1, mov_2] else out)
      in if \<not> joint_bidir a then every_second out else out))"

text \<open>
  The tensors of lines 1590 to 1724, from the affine transforms that the detector returns
  to the list of outputs.
\<close>

definition joint_graph ::
    "joint_args \<Rightarrow> tensor list \<Rightarrow> tensor \<Rightarrow> tensor \<Rightarrow> tensor \<Rightarrow> tensor \<Rightarrow> tensor list" where
  "joint_graph a hyp_inp full_1 full_2 aff_1 aff_2 =
    (let num_dim = length (joint_in_shape a);
         ima_1 = half_resolution a full_1;
         ima_2 = half_resolution a full_2;
         affine = Input ''affine'' [num_dim, num_dim + 1];
         (aff_1, aff_2) = (if joint_pass_affine a then passed_affine a affine
                           else (aff_1, aff_2));
         (aff_1, aff_2, mov_1, mov_2) = deformable_input a full_1 full_2 ima_1 ima_2 aff_1 aff_2;
         reg = deformable_registration (joint_int_steps a) hyp_inp mov_1 mov_2;
         svf_1 = reg_svf_1 reg;
         svf_2 = reg_svf_2 reg;
         def_1 = (if joint_skip_deform a then scale num_dim 1.0 else reg_def_1 reg);
         def_2 = (if joint_skip_deform a then scale num_dim 1.0 else reg_def_2 reg);
         tot_1 = total_warp a aff_1 def_1;
         tot_2 = total_warp a aff_2 def_2
     in joint_outputs a full_1 full_2
          (to_full_resolution a tot_1 def_1 aff_1)
          (to_full_resolution a tot_2 def_2 aff_2) svf_1 svf_2)"

text \<open>
  The checks between those lines, which look at the arguments and at the number of
  hypernetwork inputs only, in the order of the source: the assertion of the
  \<^verbatim>\<open>pass_affine\<close> branch (line 1591), \<^verbatim>\<open>hyp_inp[0]\<close> (1622), the assertion on the filter
  lists (1641) and the three assertions of the \<^verbatim>\<open>skip_deform\<close> branch (1679 to 1681).
\<close>

definition joint_assertions :: "joint_args \<Rightarrow> tensor list \<Rightarrow> error option" where
  "joint_assertions a hyp_inp =
    (if joint_pass_affine a \<and> joint_skip_affine a
     then Some (AssertionError ''cannot both skip and override affine'')
     else if joint_hyp_num a > 0 \<and> hyp_inp = []
     then Some (IndexError ''list index out of range'')
     else if length (joint_enc_nf a) \<noteq> length (joint_dec_nf a)
     then Some (AssertionError ''number of layers differs for encoder and decoder'')
     else if joint_skip_deform a \<and> joint_skip_affine a
     then Some (AssertionError ''cannot skip both affine and deformable'')
     else if joint_skip_deform a \<and> joint_return_svf a
     then Some (AssertionError ''cannot skip deformable and return SVF'')
     else if joint_skip_deform a \<and> joint_return_def a
     then Some (AssertionError ''cannot skip deformable and return warp'')
     else None)"

text \<open>The inputs of the model: lines 1592 to 1597 add the affine input, line 1682 keeps
  the two images only.\<close>

definition joint_model_inputs :: "joint_args \<Rightarrow> keras_model \<Rightarrow> tensor \<Rightarrow> tensor \<Rightarrow> tensor list" where
  "joint_model_inputs a im full_1 full_2 =
    (let affine = Input ''affine'' [length (joint_in_shape a), length (joint_in_shape a) + 1];
         ins = (if joint_pass_affine a then inputs im @ [affine] else inputs im)
     in if joint_skip_deform a then [full_1, full_2] else ins)"

text \<open>
  The constructor: the unpacking of the inputs (line 1557), the construction of the
  detector (1574), the assertion on unknown keyword arguments (1575, its message without
  the printed dictionary), the unpacking of the detector's outputs (1588), the checks and
  the tensors above, and the choice of the output (1726), which fails on an empty list.
\<close>

definition HyperVxmJoint :: "joint_args \<Rightarrow> error + keras_model" where
  "HyperVxmJoint a =
    (let input_model = joint_default_input_model a in
     case unpack_star2 (outputs input_model) of
       None \<Rightarrow> Inl (ValueError ''not enough values to unpack (expected at least 2)'')
     | Some (hyp_inp, full_1, full_2) \<Rightarrow>
      (case VxmAffineFeatureDetector (arg_aff a) of
         Inl e \<Rightarrow> Inl e
       | Inr model_aff \<Rightarrow>
          if joint_other_kwargs a \<noteq> [] then Inl (AssertionError ''unknown arguments'')
          else
           (case call_model model_aff [half_resolution a full_1, half_resolution a full_2] of
              [aff_1, aff_2] \<Rightarrow>
               (case joint_assertions a hyp_inp of
                  Some e \<Rightarrow> Inl e
                | None \<Rightarrow>
                   (let out = joint_graph a hyp_inp full_1 full_2 aff_1 aff_2 in
                    if out = [] then Inl (IndexError ''list index out of range'')
                    else Inr \<lparr>inputs = joint_model_inputs a input_model full_1 full_2,
                              outputs = out\<rparr>))
            | _ \<Rightarrow> Inl (ValueError ''too many values to unpack (expected 2)''))))"

subsection \<open>Reading a model after \<^verbatim>\<open>set_flow\<close>\<close>


subsection \<open>The mean stream\<close>

text \<open>
  Modelled from the spec: \<^verbatim>\<open>ne.layers.MeanStream\<close>, which TemplateCreation and
  ConditionalTemplateCreation apply to \<^verbatim>\<open>neg_flow\<close> with \<^verbatim>\<open>cap=mean_cap\<close> (lines 805
  and 971), is part of neurite and not of this file. Section 4.7 of the specification
  gives its state as \<^verbatim>\<open>(count, mean)\<close>, created with \<^verbatim>\<open>count = 0\<close>, and its update as:
  let \<^verbatim>\<open>c' = min(count + batch_size, cap)\<close>; if \<^verbatim>\<open>count < cap\<close> then
  \<^verbatim>\<open>mean \<leftarrow> mean + (batch_mean - mean) \<cdot> (batch_size / c')\<close>; once \<^verbatim>\<open>count \<ge> cap\<close> the
  weight is fixed at \<^verbatim>\<open>batch_size / cap\<close>; \<^verbatim>\<open>count \<leftarrow> c'\<close>. The field is a list of
  reals, updated entry by entry; the specification says nothing about a batch size or a
  cap of zero.
\<close>

record mean_accumulator =
  acc_count :: nat
  acc_mean :: "real list"

definition update_weight :: "nat \<Rightarrow> nat \<Rightarrow> nat \<Rightarrow> real" where
  "update_weight count' batch_size cap =
     (let c' = min (count' + batch_size) cap
      in if count' < cap then real batch_size / real c' else real batch_size / real cap)"

definition update :: "real list \<Rightarrow> nat \<Rightarrow> nat \<Rightarrow> mean_accumulator \<Rightarrow> mean_accumulator" where
  "update batch_mean batch_size cap s =
     \<lparr>acc_count = min (acc_count s + batch_size) cap,
      acc_mean = map2 (\<lambda>m b. m + (b - m) * update_weight (acc_count s) batch_size cap)
                   (acc_mean s) batch_mean\<rparr>"

text \<open>Feeding the same batch mean \<open>n\<close> times.\<close>

fun feed :: "nat \<Rightarrow> real list \<Rightarrow> nat \<Rightarrow> nat \<Rightarrow> mean_accumulator \<Rightarrow> mean_accumulator" where
  "feed 0 v batch_size cap s = s"
| "feed (Suc n) v batch_size cap s = feed n v batch_size cap (update v batch_size cap s)"

subsection \<open>Predicates on layers and arguments\<close>

definition is_VecInt :: "layer \<Rightarrow> bool" where
  "is_VecInt l = (case l of VecInt method steps \<Rightarrow> True | _ \<Rightarrow> False)"

definition no_VecInt :: "tensor \<Rightarrow> bool" where
  "no_VecInt t = (\<forall>l \<in> set (layers_of t). \<not> is_VecInt l)"

text \<open>The \<^verbatim>\<open>shift_center\<close> argument of a layer that has one: \<open>Some None\<close> if the call
  leaves it out.\<close>

definition shift_center :: "layer \<Rightarrow> bool option option" where
  "shift_center l =
     (case l of
        SpatialTransformer interp fill shape sc \<Rightarrow> Some sc
      | ComposeTransform sc \<Rightarrow> Some sc
      | AffineToDenseShift shape sc \<Rightarrow> Some sc
      | _ \<Rightarrow> None)"

text \<open>
  A layer is in order if it has no \<^verbatim>\<open>shift_center\<close> argument or is passed
  \<^verbatim>\<open>shift_center=False\<close>. A tensor is in order if all its layers are; with \<open>lax\<close>, a
  \<^verbatim>\<open>ComposeTransform\<close> that leaves the argument out is let through.
\<close>

definition passes_False :: "layer \<Rightarrow> bool" where
  "passes_False l = (shift_center l \<in> {None, Some (Some False)})"

definition flag_ok :: "bool \<Rightarrow> tensor \<Rightarrow> bool" where
  "flag_ok lax t =
     (\<forall>l \<in> set (layers_of t). passes_False l \<or> (lax \<and> l = ComposeTransform None))"

text \<open>The detector returns its matrices as they are: no change of the output resolution,
  no cast, no dense field and no further outputs.\<close>

definition matrices_only :: "affine_args \<Rightarrow> bool" where
  "matrices_only a =
     (\<not> aff_return_trans_to_half_res a \<and> \<not> aff_float16 a \<and> \<not> aff_make_dense a
      \<and> \<not> aff_return_moved a \<and> \<not> aff_return_feat a)"



text \<open>The averaged fit of the detector on two input tensors, lines 1348 to 1413.\<close>

definition averaged_fit :: "affine_args \<Rightarrow> tensor \<Rightarrow> tensor \<Rightarrow> tensor" where
  "averaged_fit a inp_1 inp_2 =
     fit_and_average (aff_weighted a)
       (barycenter (aff_in_shape a) (detector_features a inp_1))
       (barycenter (aff_in_shape a) (detector_features a inp_2))
       (channel_weights (detector_features a inp_1) (detector_features a inp_2))"

text \<open>All layers of the outputs of a constructed model.\<close>

definition model_layers :: "error + keras_model \<Rightarrow> layer list" where
  "model_layers r = (case r of Inl e \<Rightarrow> [] | Inr m \<Rightarrow> concat (map layers_of (outputs m)))"

subsection \<open>Example arguments and runs\<close>

text \<open>The defaults of the constructors, on images of 32 by 32 pixels.\<close>

definition vxm_dense_defaults :: vxm_dense_args where
  "vxm_dense_defaults =
     \<lparr>inshape = [32, 32], nb_unet_features = None, nb_unet_levels = None,
      nb_unet_conv_per_level = 1, int_steps = 7,
      svf_resolution = 1, int_resolution = 2, int_downsize = None, bidir = False,
      use_probs = False, src_feats = 1, trg_feats = 1, unet_half_res = False,
      input_model = None, hyp_model = None, fill_value = None,
      reg_field = ''preintegrated'', name = ''vxm_dense'', unet_output_size = [32, 32]\<rparr>"

definition instance_dense_defaults :: instance_dense_args where
  "instance_dense_defaults =
     \<lparr>inst_inshape = [32, 32], inst_nb_feats = 1, inst_mult = 1000, inst_int_steps = 7,
      inst_int_downsize = None, inst_int_resolution = 2\<rparr>"

definition affine_defaults :: affine_args where
  "affine_defaults =
     \<lparr>aff_in_shape = [32, 32], aff_input_model = None, aff_num_chan = 1,
      aff_enc_nf = [256, 256, 256, 256], aff_dec_nf = [], aff_half_res = True,
      aff_weighted = True, aff_rigid = False, aff_make_dense = True, aff_bidir = False,
      aff_return_trans_to_mid_space = False, aff_return_trans_to_half_res = False,
      aff_return_moved = False, aff_return_feat = False, aff_float16 = False\<rparr>"

definition joint_defaults :: joint_args where
  "joint_defaults =
     \<lparr>joint_in_shape = [32, 32], joint_input_model = None, joint_num_chan = 1,
      joint_hyp_num = 1, joint_enc_nf = [256, 256, 256, 256],
      joint_dec_nf = [256, 256, 256, 256], joint_int_steps = 7, joint_bidir = False,
      joint_pass_affine = False, joint_skip_affine = False, joint_skip_deform = False,
      joint_mid_space = False, joint_return_trans_to_half_res = False,
      joint_return_tot = True, joint_return_def = False, joint_return_aff = False,
      joint_return_svf = False, joint_return_moved = False,
      joint_aff_kwargs = affine_defaults, joint_other_kwargs = [], joint_tot_shape = [32, 32]\<rparr>"

text \<open>
  A run over matrices with entries that may be non-finite, written row by row. The
  reflection \<open>x \<mapsto> -x\<close> of the plane has no real square root; in this run
  \<^verbatim>\<open>tf.linalg.sqrtm\<close> answers it with nine \<^verbatim>\<open>nan\<close> (the docstring of the class warns
  of \<^verbatim>\<open>nan\<close> values in the mid-space mode), and \<^verbatim>\<open>make_square_affine\<close> appends the row
  \<open>0 0 1\<close>. No other matrix and no other layer is looked at, so they are given the
  values of their first argument.
\<close>

definition reflection :: "npfloat list" where
  "reflection = map Finite [-1, 0, 0, 0, 1, 0]"

definition nan_run :: "layer \<Rightarrow> npfloat list list \<Rightarrow> npfloat list" where
  "nan_run l vs =
     (case vs of
        [] \<Rightarrow> []
      | m # rest \<Rightarrow>
         if l = Lambda MakeSquareAffine then m @ map Finite [0, 0, 1]
         else if l = Lambda Sqrtm \<and> m = reflection @ map Finite [0, 0, 1]
         then replicate 9 NonFinite
         else m)"

definition reflection_input :: "string \<Rightarrow> npfloat list" where
  "reflection_input n = reflection"

section \<open>Properties\<close>

subsection \<open>Auxiliary facts: running a graph\<close>

lemma average_two: "average [a, b] = map2 (\<lambda>x y. (x + y) / 2) a b"
proof -
  have "map (\<lambda>z. z / 2) (map2 (+) a b) = map2 (\<lambda>x y. (x + y) / 2) a b"
    by (induction a arbitrary: b) (auto split: list.splits)
  then show ?thesis by (simp add: average_def)
qed

lemma keras_Average [simp]: "keras ext Average vs = average vs"
  by (simp add: keras_def)

lemma keras_Negate [simp]: "keras ext Negate [v] = map uminus v"
  by (simp add: keras_def)

lemma keras_Lambda [simp]: "keras ext (Lambda f) vs = ext (Lambda f) vs"
  by (simp add: keras_def)

lemma keras_InvertAffine [simp]: "keras ext InvertAffine vs = ext InvertAffine vs"
  by (simp add: keras_def)

lemma keras_ModelDef [simp]: "keras ext ModelDef vs = ext ModelDef vs"
  by (simp add: keras_def)

lemma map2_add_uminus: "map2 (+) v (map uminus v) = replicate (length v) (0::real)"
  by (induction v) auto

subsection \<open>Auxiliary facts: layers\<close>

lemma is_VecInt_simps [simp]:
  "is_VecInt (VecInt method steps)" "\<not> is_VecInt (Conv label filters)"
  "\<not> is_VecInt Concatenate" "\<not> is_VecInt SampleNormalLogVar"
  "\<not> is_VecInt (RescaleTransform factor)" "\<not> is_VecInt Negate"
  "\<not> is_VecInt (SpatialTransformer interp fill shape sc)" "\<not> is_VecInt UnetBody"
  "\<not> is_VecInt (LocalParamWithInput sh mult label)"
  by (simp_all add: is_VecInt_def)

lemma no_VecInt_Input [simp]: "no_VecInt (Input n s)"
  by (simp add: no_VecInt_def)

lemma no_VecInt_Call [simp]:
  "no_VecInt (Call l ts) \<longleftrightarrow> \<not> is_VecInt l \<and> (\<forall>t \<in> set ts. no_VecInt t)"
  by (auto simp: no_VecInt_def)

lemma passes_False_simps [simp]:
  "passes_False (ComposeTransform sc) \<longleftrightarrow> sc = Some False"
  "passes_False (SpatialTransformer interp fill shape sc) \<longleftrightarrow> sc = Some False"
  "passes_False (AffineToDenseShift shape' sc) \<longleftrightarrow> sc = Some False"
  "passes_False (Constant c)" "passes_False (Lambda g)" "passes_False Det"
  "passes_False ModelDef" "passes_False Average" "passes_False InvertAffine"
  "passes_False Negate" "passes_False (VecInt method steps)" "passes_False Divide"
  "passes_False Multiply" "passes_False (SliceColumns k)"
  "passes_False (ParamsToAffineMatrix d)"
  by (simp_all add: passes_False_def shift_center_def)

lemma flag_ok_Input [simp]: "flag_ok lax (Input n s)"
  by (simp add: flag_ok_def)

lemma flag_ok_Call [simp]:
  "flag_ok lax (Call l ts) \<longleftrightarrow>
     (passes_False l \<or> (lax \<and> l = ComposeTransform None)) \<and> (\<forall>t \<in> set ts. flag_ok lax t)"
  by (auto simp: flag_ok_def)

lemma flag_ok_constants [simp]:
  "flag_ok lax (scale d f)" "flag_ok lax (cen d s)" "flag_ok lax (un_cen d s)"
  by (simp_all add: scale_def cen_def un_cen_def)

lemma flag_ok_every_second:
  "\<forall>t \<in> set xs. flag_ok lax t \<Longrightarrow> \<forall>t \<in> set (every_second xs). flag_ok lax t"
  by (induction xs rule: every_second.induct) auto

lemma flag_ok_substitute:
  assumes "flag_ok lax t" and "\<forall>p \<in> set \<sigma>. flag_ok lax (snd p)"
  shows "flag_ok lax (substitute \<sigma> t)"
  using assms
proof (induction \<sigma> t rule: substitute.induct)
  case (1 \<sigma> n s)
  then show ?case
    by (auto split: option.splits dest!: map_of_SomeD)
next
  case (2 \<sigma> l ts)
  then show ?case by auto
qed

lemma flag_ok_call_model:
  assumes "\<forall>t \<in> set (outputs m). flag_ok lax t" "\<forall>t \<in> set xs. flag_ok lax t"
  shows "\<forall>t \<in> set (call_model m xs). flag_ok lax t"
  using assms
  by (auto simp: call_model_def intro!: flag_ok_substitute dest!: set_zip_rightD)

subsection \<open>Auxiliary facts: what VxmDense builds\<close>

lemma apply_deprecated_int_steps [simp]: "int_steps (apply_deprecated a) = int_steps a"
  by (simp add: apply_deprecated_def Let_def split: option.splits)

lemma Unet_Inr:
  assumes "Unet im nb_features nb_levels nb_conv_per_level hyp_tensor = Inr u"
  shows "u = Call UnetBody
               ((case outputs im of [t] \<Rightarrow> t | ts \<Rightarrow> Call Concatenate ts)
                # (case hyp_tensor of None \<Rightarrow> [] | Some h \<Rightarrow> [h]))"
  using assms by (simp add: Unet_def Let_def split: prod.splits if_splits)

lemma VxmDense_flow_fields:
  assumes "VxmDense_flow a = Inr r"
  shows "\<exists>ins source target h u. r = flow_fields (apply_deprecated a) ins source target h u"
  using assms unfolding VxmDense_flow_def Let_def
  by (auto split: if_splits list.splits sum.splits) blast+

lemma VxmDense_flow_default:
  assumes "VxmDense_flow a = Inr r" "input_model a = None" "hyp_model a = None"
  shows "flow_fields (apply_deprecated a) (configure_inputs a (default_input_model a))
           (Input (name a @ ''_source_input'') (inshape a @ [src_feats a]))
           (Input (name a @ ''_target_input'') (inshape a @ [trg_feats a])) None
           (Call UnetBody
              [Call Concatenate
                 [Input (name a @ ''_source_input'') (inshape a @ [src_feats a]),
                  Input (name a @ ''_target_input'') (inshape a @ [trg_feats a])]])
         = r"
  using assms unfolding VxmDense_flow_def Let_def
  by (auto simp: default_input_model_def Let_def dest!: Unet_Inr split: if_splits sum.splits)

lemma flow_fields_no_integration:
  assumes "int_steps a \<le> 0" and "flow_fields a ins source target h u = (m, fp)"
  shows "ref_pos_flow m = ref_svf m \<and> ref_postint_flow m = ref_svf m
    \<and> ref_preint_flow m = ref_svf m"
  using assms
  by (auto simp: flow_fields_def Let_def integrate_def rescale_to_int_resolution_def
      resize_to_final_resolution_def split: prod.splits)

lemma flow_fields_no_VecInt:
  assumes "int_steps a \<le> 0" and "flow_fields a ins source target h u = (m, fp)"
    and "no_VecInt source" "no_VecInt target" "no_VecInt u"
  shows "(\<forall>t \<in> set (outputs m). no_VecInt t) \<and> no_VecInt fp \<and> no_VecInt (ref_svf m)"
  using assms
  by (auto simp: flow_fields_def Let_def integrate_def rescale_to_int_resolution_def
      resize_to_final_resolution_def rescale_to_svf_resolution_def predicted_flow_def
      split: prod.splits if_splits)

lemma VxmDense_Inr:
  assumes "VxmDense a = Inr m"
  shows "\<exists>m' fp t. VxmDense_flow a = Inr (m', fp) \<and> m = append_output m' t
     \<and> t \<in> {fp, ref_svf m', ref_preint_flow m', ref_postint_flow m', ref_pos_flow m'}"
  using assms unfolding VxmDense_def Let_def
  by (auto split: sum.splits if_splits)

lemma append_output_fields [simp]:
  "ref_svf (append_output m t) = ref_svf m"
  "ref_preint_flow (append_output m t) = ref_preint_flow m"
  "ref_postint_flow (append_output m t) = ref_postint_flow m"
  "ref_pos_flow (append_output m t) = ref_pos_flow m"
  "outputs (append_output m t) = outputs m @ [t]"
  by (simp_all add: append_output_def)

subsection \<open>Auxiliary facts: what VxmAffineFeatureDetector builds\<close>

lemma affine_estimate_averaged_fit:
  "affine_estimate a (detector_features a inp_1) (detector_features a inp_2) =
     mid_space_transforms (aff_return_trans_to_mid_space a)
       (remove_scaling_and_shear (aff_rigid a) (length (aff_in_shape a))
          (averaged_fit a inp_1 inp_2))"
  by (simp add: affine_estimate_def averaged_fit_def Let_def)

lemma VxmAffineFeatureDetector_Inr:
  assumes "VxmAffineFeatureDetector a = Inr m"
  shows "\<exists>inp_1 inp_2 rest moved.
           outputs (detector_input_model a) = inp_1 # inp_2 # rest \<and>
           moved_images a (inputs (detector_input_model a))
             (index_space (length (aff_in_shape a)) (aff_in_shape a)
                (fst (affine_estimate a (detector_features a inp_1) (detector_features a inp_2))))
             (index_space (length (aff_in_shape a)) (aff_in_shape a)
                (snd (affine_estimate a (detector_features a inp_1) (detector_features a inp_2))))
             = Inr moved \<and>
           outputs m = detector_outputs a (detector_features a inp_1) (detector_features a inp_2)
             (index_space (length (aff_in_shape a)) (aff_in_shape a)
                (fst (affine_estimate a (detector_features a inp_1) (detector_features a inp_2))))
             (index_space (length (aff_in_shape a)) (aff_in_shape a)
                (snd (affine_estimate a (detector_features a inp_1) (detector_features a inp_2))))
             moved"
proof -
  obtain inp_1 inp_2 rest where o: "outputs (detector_input_model a) = inp_1 # inp_2 # rest"
    using assms unfolding VxmAffineFeatureDetector_def Let_def
    by (auto split: list.splits)
  show ?thesis
    using assms unfolding VxmAffineFeatureDetector_def Let_def o
    by (auto split: if_splits sum.splits prod.splits)
qed

text \<open>With \<open>matrices_only\<close> the outputs are the index-space matrices themselves.\<close>

lemma detector_matrices:
  assumes "VxmAffineFeatureDetector a = Inr m" and "matrices_only a"
  shows "\<exists>inp_1 inp_2 rest.
           outputs (detector_input_model a) = inp_1 # inp_2 # rest \<and>
           outputs m =
             (if aff_bidir a
              then [index_space (length (aff_in_shape a)) (aff_in_shape a)
                      (fst (mid_space_transforms (aff_return_trans_to_mid_space a)
                         (remove_scaling_and_shear (aff_rigid a) (length (aff_in_shape a))
                            (averaged_fit a inp_1 inp_2)))),
                    index_space (length (aff_in_shape a)) (aff_in_shape a)
                      (snd (mid_space_transforms (aff_return_trans_to_mid_space a)
                         (remove_scaling_and_shear (aff_rigid a) (length (aff_in_shape a))
                            (averaged_fit a inp_1 inp_2))))]
              else [index_space (length (aff_in_shape a)) (aff_in_shape a)
                      (fst (mid_space_transforms (aff_return_trans_to_mid_space a)
                         (remove_scaling_and_shear (aff_rigid a) (length (aff_in_shape a))
                            (averaged_fit a inp_1 inp_2))))])"
proof -
  from VxmAffineFeatureDetector_Inr [OF assms(1)]
  obtain inp_1 inp_2 rest moved where
    o: "outputs (detector_input_model a) = inp_1 # inp_2 # rest" and
    mv: "moved_images a (inputs (detector_input_model a))
             (index_space (length (aff_in_shape a)) (aff_in_shape a)
                (fst (affine_estimate a (detector_features a inp_1) (detector_features a inp_2))))
             (index_space (length (aff_in_shape a)) (aff_in_shape a)
                (snd (affine_estimate a (detector_features a inp_1) (detector_features a inp_2))))
             = Inr moved" and
    m: "outputs m = detector_outputs a (detector_features a inp_1) (detector_features a inp_2)
             (index_space (length (aff_in_shape a)) (aff_in_shape a)
                (fst (affine_estimate a (detector_features a inp_1) (detector_features a inp_2))))
             (index_space (length (aff_in_shape a)) (aff_in_shape a)
                (snd (affine_estimate a (detector_features a inp_1) (detector_features a inp_2))))
             moved"
    by blast
  from mv assms(2) have "moved = []"
    by (simp add: moved_images_def matrices_only_def)
  with m assms(2) have "outputs m =
      (if aff_bidir a
       then [index_space (length (aff_in_shape a)) (aff_in_shape a)
               (fst (affine_estimate a (detector_features a inp_1) (detector_features a inp_2))),
             index_space (length (aff_in_shape a)) (aff_in_shape a)
               (snd (affine_estimate a (detector_features a inp_1) (detector_features a inp_2)))]
       else [index_space (length (aff_in_shape a)) (aff_in_shape a)
               (fst (affine_estimate a (detector_features a inp_1) (detector_features a inp_2)))])"
    by (simp add: detector_outputs_def matrices_only_def Let_def)
  with o show ?thesis
    unfolding affine_estimate_averaged_fit by blast
qed

subsection \<open>Auxiliary facts: what HyperVxmJoint builds\<close>

lemma HyperVxmJoint_Inr:
  assumes "HyperVxmJoint a = Inr m"
  shows "\<exists>hyp_inp full_1 full_2 model_aff aff_1 aff_2.
           unpack_star2 (outputs (joint_default_input_model a)) = Some (hyp_inp, full_1, full_2) \<and>
           VxmAffineFeatureDetector (arg_aff a) = Inr model_aff \<and>
           call_model model_aff [half_resolution a full_1, half_resolution a full_2]
             = [aff_1, aff_2] \<and>
           outputs m = joint_graph a hyp_inp full_1 full_2 aff_1 aff_2"
  using assms unfolding HyperVxmJoint_def Let_def
  by (auto split: option.splits sum.splits list.splits if_splits)

lemma joint_graph_unfold:
  assumes "(if joint_pass_affine a
            then passed_affine a
                   (Input ''affine'' [length (joint_in_shape a), length (joint_in_shape a) + 1])
            else (a1, a2)) = (p1, p2)"
    and "deformable_input a f1 f2 (half_resolution a f1) (half_resolution a f2) p1 p2
           = (b1, b2, m1, m2)"
    and "d1 = (if joint_skip_deform a then scale (length (joint_in_shape a)) 1.0
               else reg_def_1 (deformable_registration (joint_int_steps a) hyp m1 m2))"
    and "d2 = (if joint_skip_deform a then scale (length (joint_in_shape a)) 1.0
               else reg_def_2 (deformable_registration (joint_int_steps a) hyp m1 m2))"
  shows "joint_graph a hyp f1 f2 a1 a2 =
     joint_outputs a f1 f2
       (to_full_resolution a (total_warp a b1 d1) d1 b1)
       (to_full_resolution a (total_warp a b2 d2) d2 b2)
       (reg_svf_1 (deformable_registration (joint_int_steps a) hyp m1 m2))
       (reg_svf_2 (deformable_registration (joint_int_steps a) hyp m1 m2))"
  unfolding joint_graph_def Let_def assms(1) prod.case assms(2) assms(3) assms(4) ..

subsection \<open>Auxiliary facts: float32 rounding\<close>


lemma f32_exponent_bounds:
  "- 126 \<le> f32_exponent n x \<and> f32_exponent n x \<le> int n - 126"
  by (induction n) auto















subsection \<open>Auxiliary facts: InstanceDense\<close>



subsection \<open>Auxiliary facts: the mean stream\<close>

lemma update_keeps_constant:
  assumes "acc_mean s = v"
  shows "acc_mean (update v batch_size cap s) = v"
proof -
  have "map2 (\<lambda>m b. m + (b - m) * w) v v = v" for w :: real
    by (induction v) auto
  with assms show ?thesis by (simp add: update_def)
qed

lemma feed_keeps_constant:
  assumes "acc_mean s = v"
  shows "acc_mean (feed n v batch_size cap s) = v"
  using assms
  by (induction n arbitrary: s) (simp_all add: update_keeps_constant)

lemma map2_second:
  assumes "length ms = length v"
  shows "map2 (\<lambda>m b. b) ms v = v"
  using assms by (induction ms v rule: list_induct2) auto

subsection \<open>The centering flag, layer by layer\<close>

text \<open>
  Every block of VxmAffineFeatureDetector and of HyperVxmJoint keeps tensors in order.
  The blocks of the detector do so strictly; two blocks of HyperVxmJoint,
  \<open>passed_affine\<close> (line 1600) and \<open>to_full_resolution\<close> (lines 1699 and 1700),
  need \<open>lax\<close>: with \<^verbatim>\<open>pass_affine=True\<close>, and with
  \<^verbatim>\<open>return_trans_to_half_res=False\<close>.
\<close>

lemma flag_ok_features:
  "flag_ok lax inp \<Longrightarrow> flag_ok lax (detector_features a inp)"
  by (simp add: detector_features_def Let_def)

lemma flag_ok_estimate:
  assumes "flag_ok lax f1" "flag_ok lax f2"
  shows "flag_ok lax (fst (affine_estimate a f1 f2)) \<and> flag_ok lax (snd (affine_estimate a f1 f2))"
  using assms
  by (simp add: affine_estimate_def Let_def mid_space_transforms_def remove_scaling_and_shear_def
      fit_and_average_def barycenter_def channel_weights_def)

lemma flag_ok_index_space: "flag_ok lax t \<Longrightarrow> flag_ok lax (index_space d s t)"
  by (simp add: index_space_def)

lemma flag_ok_detector_outputs:
  assumes "flag_ok lax f1" "flag_ok lax f2" "flag_ok lax a1" "flag_ok lax a2"
    "\<forall>t \<in> set moved. flag_ok lax t"
  shows "\<forall>t \<in> set (detector_outputs a f1 f2 a1 a2 moved). flag_ok lax t"
  using assms
  by (auto simp: detector_outputs_def Let_def intro!: flag_ok_every_second)

lemma flag_ok_moved:
  assumes "moved_images a ins a1 a2 = Inr moved" "\<forall>t \<in> set ins. flag_ok lax t"
    "flag_ok lax a1" "flag_ok lax a2"
  shows "\<forall>t \<in> set moved. flag_ok lax t"
  using assms
  by (auto simp: moved_images_def split: if_splits list.splits)

lemma detector_flag_ok:
  assumes "VxmAffineFeatureDetector a = Inr m"
    and "\<forall>t \<in> set (inputs (detector_input_model a) @ outputs (detector_input_model a)). flag_ok lax t"
  shows "\<forall>t \<in> set (outputs m). flag_ok lax t"
proof -
  obtain inp_1 inp_2 rest where o: "outputs (detector_input_model a) = inp_1 # inp_2 # rest"
    using assms(1) unfolding VxmAffineFeatureDetector_def Let_def
    by (auto split: list.splits)
  let ?f1 = "detector_features a inp_1" and ?f2 = "detector_features a inp_2"
  let ?a1 = "index_space (length (aff_in_shape a)) (aff_in_shape a) (fst (affine_estimate a ?f1 ?f2))"
  let ?a2 = "index_space (length (aff_in_shape a)) (aff_in_shape a) (snd (affine_estimate a ?f1 ?f2))"
  from assms(1) obtain moved where
    mv: "moved_images a (inputs (detector_input_model a)) ?a1 ?a2 = Inr moved" and
    m: "outputs m = detector_outputs a ?f1 ?f2 ?a1 ?a2 moved"
    unfolding VxmAffineFeatureDetector_def Let_def o
    by (auto split: if_splits sum.splits prod.splits)
  from assms(2) o have i: "flag_ok lax inp_1" "flag_ok lax inp_2" by auto
  then have f: "flag_ok lax ?f1" "flag_ok lax ?f2" by (simp_all add: flag_ok_features)
  then have e: "flag_ok lax ?a1" "flag_ok lax ?a2"
    using flag_ok_estimate [of lax ?f1 ?f2 a] by (simp_all add: flag_ok_index_space)
  from flag_ok_moved [OF mv _ e] assms(2) have "\<forall>t \<in> set moved. flag_ok lax t" by auto
  with f e show ?thesis unfolding m by (intro flag_ok_detector_outputs)
qed

lemma detector_default_inputs:
  "aff_input_model a = None \<Longrightarrow>
   \<forall>t \<in> set (inputs (detector_input_model a) @ outputs (detector_input_model a)). flag_ok lax t"
  by (simp add: detector_input_model_def Let_def)


lemma flag_ok_half_resolution: "flag_ok lax t \<Longrightarrow> flag_ok lax (half_resolution a t)"
  by (simp add: half_resolution_def)

lemma flag_ok_mid_space:
  "flag_ok lax t \<Longrightarrow>
   flag_ok lax (fst (mid_space_transforms b t)) \<and> flag_ok lax (snd (mid_space_transforms b t))"
  by (simp add: mid_space_transforms_def Let_def)

lemma flag_ok_passed_affine:
  assumes "joint_pass_affine a \<longrightarrow> lax" "joint_pass_affine a" "flag_ok lax t"
  shows "flag_ok lax (fst (passed_affine a t)) \<and> flag_ok lax (snd (passed_affine a t))"
  using assms by (simp add: passed_affine_def Let_def flag_ok_mid_space)

lemma flag_ok_deformable_input:
  assumes "flag_ok lax f1" "flag_ok lax f2" "flag_ok lax i1" "flag_ok lax i2"
    "flag_ok lax a1" "flag_ok lax a2"
    and "deformable_input a f1 f2 i1 i2 a1 a2 = (b1, b2, m1, m2)"
  shows "flag_ok lax b1 \<and> flag_ok lax b2 \<and> flag_ok lax m1 \<and> flag_ok lax m2"
  using assms by (auto simp: deformable_input_def Let_def split: if_splits)

lemma flag_ok_registration:
  assumes "\<forall>t \<in> set hyp. flag_ok lax t" "flag_ok lax m1" "flag_ok lax m2"
  shows "flag_ok lax (reg_svf_1 (deformable_registration k hyp m1 m2))
    \<and> flag_ok lax (reg_svf_2 (deformable_registration k hyp m1 m2))
    \<and> flag_ok lax (reg_def_1 (deformable_registration k hyp m1 m2))
    \<and> flag_ok lax (reg_def_2 (deformable_registration k hyp m1 m2))"
  using assms by (simp add: deformable_registration_def Let_def)

lemma flag_ok_total_warp:
  assumes "flag_ok lax af" "flag_ok lax df"
  shows "flag_ok lax (total_warp a af df)"
  using assms by (simp add: total_warp_def Let_def)

lemma flag_ok_to_full_resolution:
  assumes "\<not> joint_return_trans_to_half_res a \<longrightarrow> lax"
    "flag_ok lax tot" "flag_ok lax df" "flag_ok lax af"
    and "to_full_resolution a tot df af = (x, y, z)"
  shows "flag_ok lax x \<and> flag_ok lax y \<and> flag_ok lax z"
  using assms by (auto simp: to_full_resolution_def Let_def split: if_splits)

lemma flag_ok_joint_outputs:
  assumes "flag_ok lax f1" "flag_ok lax f2"
    "flag_ok lax x1" "flag_ok lax y1" "flag_ok lax z1"
    "flag_ok lax x2" "flag_ok lax y2" "flag_ok lax z2" "flag_ok lax s1" "flag_ok lax s2"
  shows "\<forall>t \<in> set (joint_outputs a f1 f2 (x1, y1, z1) (x2, y2, z2) s1 s2). flag_ok lax t"
  using assms by (auto simp: joint_outputs_def Let_def intro!: flag_ok_every_second)

lemma flag_ok_joint_graph:
  assumes lax: "joint_pass_affine a \<or> \<not> joint_return_trans_to_half_res a \<longrightarrow> lax"
    and "\<forall>t \<in> set hyp. flag_ok lax t" "flag_ok lax f1" "flag_ok lax f2"
    "flag_ok lax a1" "flag_ok lax a2"
  shows "\<forall>t \<in> set (joint_graph a hyp f1 f2 a1 a2). flag_ok lax t"
proof -
  let ?d = "length (joint_in_shape a)"
  let ?i1 = "half_resolution a f1" and ?i2 = "half_resolution a f2"
  obtain p1 p2 where pp: "(if joint_pass_affine a
      then passed_affine a (Input ''affine'' [?d, ?d + 1]) else (a1, a2)) = (p1, p2)"
    by (metis surj_pair)
  have p: "flag_ok lax p1" "flag_ok lax p2"
  proof -
    have "flag_ok lax p1 \<and> flag_ok lax p2"
    proof (cases "joint_pass_affine a")
      case True
      with pp have "passed_affine a (Input ''affine'' [?d, ?d + 1]) = (p1, p2)" by simp
      with flag_ok_passed_affine [of a lax "Input ''affine'' [?d, ?d + 1]"] True lax
      show ?thesis by simp
    next
      case False
      with pp assms show ?thesis by simp
    qed
    then show "flag_ok lax p1" "flag_ok lax p2" by blast+
  qed
  obtain b1 b2 m1 m2 where di: "deformable_input a f1 f2 ?i1 ?i2 p1 p2 = (b1, b2, m1, m2)"
    by (metis prod_cases4)
  from flag_ok_deformable_input [OF _ _ _ _ _ _ di] p assms
  have b: "flag_ok lax b1" "flag_ok lax b2" "flag_ok lax m1" "flag_ok lax m2"
    by (simp_all add: flag_ok_half_resolution)
  let ?r = "deformable_registration (joint_int_steps a) hyp m1 m2"
  from flag_ok_registration [OF assms(2) b(3,4)]
  have r: "flag_ok lax (reg_svf_1 ?r)" "flag_ok lax (reg_svf_2 ?r)"
    "flag_ok lax (reg_def_1 ?r)" "flag_ok lax (reg_def_2 ?r)" by blast+
  define d1 where "d1 = (if joint_skip_deform a then scale ?d 1.0 else reg_def_1 ?r)"
  define d2 where "d2 = (if joint_skip_deform a then scale ?d 1.0 else reg_def_2 ?r)"
  have d: "flag_ok lax d1" "flag_ok lax d2" using r by (simp_all add: d1_def d2_def)
  have t: "flag_ok lax (total_warp a b1 d1)" "flag_ok lax (total_warp a b2 d2)"
    using b d by (simp_all add: flag_ok_total_warp)
  obtain x1 y1 z1 where o1: "to_full_resolution a (total_warp a b1 d1) d1 b1 = (x1, y1, z1)"
    by (metis prod_cases3)
  obtain x2 y2 z2 where o2: "to_full_resolution a (total_warp a b2 d2) d2 b2 = (x2, y2, z2)"
    by (metis prod_cases3)
  from flag_ok_to_full_resolution [OF _ t(1) d(1) b(1) o1] lax
  have k1: "flag_ok lax x1" "flag_ok lax y1" "flag_ok lax z1" by auto
  from flag_ok_to_full_resolution [OF _ t(2) d(2) b(2) o2] lax
  have k2: "flag_ok lax x2" "flag_ok lax y2" "flag_ok lax z2" by auto
  have "joint_graph a hyp f1 f2 a1 a2 =
      joint_outputs a f1 f2 (x1, y1, z1) (x2, y2, z2) (reg_svf_1 ?r) (reg_svf_2 ?r)"
    using joint_graph_unfold [OF pp di d1_def d2_def] by (simp add: o1 o2)
  then show ?thesis
    using flag_ok_joint_outputs [OF assms(3,4) k1 k2 r(1,2)] by simp
qed

lemma joint_default_inputs:
  assumes "joint_input_model a = None"
    and "unpack_star2 (outputs (joint_default_input_model a)) = Some (hyp, f1, f2)"
  shows "(\<forall>t \<in> set hyp. flag_ok lax t) \<and> flag_ok lax f1 \<and> flag_ok lax f2"
  using assms
  by (auto simp: joint_default_input_model_def unpack_star2_def Let_def split: if_splits)

text \<open>
  A detector built on its own inputs passes \<^verbatim>\<open>shift_center=False\<close> to every layer that
  takes the flag (\<open>detector_flag_ok\<close> with \<open>detector_default_inputs\<close>). So does
  HyperVxmJoint on its own inputs when no affine is passed in and the transforms are
  returned at half resolution; otherwise the only layers that do not are calls of
  \<^verbatim>\<open>ComposeTransform\<close> that leave the flag out.
\<close>

lemma joint_flag_ok:
  assumes "HyperVxmJoint a = Inr m"
    and "joint_input_model a = None" "aff_input_model (joint_aff_kwargs a) = None"
    and lax: "joint_pass_affine a \<or> \<not> joint_return_trans_to_half_res a \<longrightarrow> lax"
  shows "\<forall>t \<in> set (outputs m). flag_ok lax t"
proof -
  from HyperVxmJoint_Inr [OF assms(1)] obtain hyp f1 f2 model_aff a1 a2 where
    u: "unpack_star2 (outputs (joint_default_input_model a)) = Some (hyp, f1, f2)" and
    d: "VxmAffineFeatureDetector (arg_aff a) = Inr model_aff" and
    c: "call_model model_aff [half_resolution a f1, half_resolution a f2] = [a1, a2]" and
    m: "outputs m = joint_graph a hyp f1 f2 a1 a2"
    by blast
  from joint_default_inputs [OF assms(2) u]
  have i: "\<forall>t \<in> set hyp. flag_ok lax t" "flag_ok lax f1" "flag_ok lax f2" by blast+
  have "aff_input_model (arg_aff a) = None"
    using assms(3) by (simp add: arg_aff_def)
  from detector_flag_ok [OF d detector_default_inputs [OF this]]
  have "\<forall>t \<in> set (outputs model_aff). flag_ok lax t" .
  from flag_ok_call_model [OF this, of "[half_resolution a f1, half_resolution a f2]"] i c
  have "flag_ok lax a1" "flag_ok lax a2"
    by (simp_all add: flag_ok_half_resolution)
  with flag_ok_joint_graph [OF lax i] show ?thesis unfolding m by blast
qed

subsection \<open>No integration layer in VxmDense at zero steps\<close>

lemma VxmDense_default_no_VecInt:
  assumes "VxmDense a = Inr m" "int_steps a \<le> 0" "input_model a = None" "hyp_model a = None"
  shows "\<forall>t \<in> set (outputs m). no_VecInt t"
proof -
  from VxmDense_Inr [OF assms(1)] obtain m' fp t where
    f: "VxmDense_flow a = Inr (m', fp)" and m: "m = append_output m' t" and
    t: "t \<in> {fp, ref_svf m', ref_preint_flow m', ref_postint_flow m', ref_pos_flow m'}"
    by blast
  note ff = VxmDense_flow_default [OF f assms(3,4)]
  have z: "int_steps (apply_deprecated a) \<le> 0"
    using assms(2) by simp
  from flow_fields_no_VecInt [OF z ff]
  have n: "(\<forall>t \<in> set (outputs m'). no_VecInt t) \<and> no_VecInt fp \<and> no_VecInt (ref_svf m')"
    by simp
  from flow_fields_no_integration [OF z ff]
  have r: "ref_pos_flow m' = ref_svf m' \<and> ref_postint_flow m' = ref_svf m'
      \<and> ref_preint_flow m' = ref_svf m'" .
  from t r n have "no_VecInt t" by auto
  with n show ?thesis unfolding m by auto
qed


subsection \<open>The velocity fields and deformations among the outputs of HyperVxmJoint\<close>

lemma joint_outputs_svf_last:
  assumes "joint_return_svf a" "joint_bidir a" "\<not> joint_return_moved a"
  shows "last (joint_outputs a f1 f2 o1 o2 s1 s2) = s2
    \<and> last (butlast (joint_outputs a f1 f2 o1 o2 s1 s2)) = s1"
  using assms
  by (cases o1; cases o2) (simp add: joint_outputs_def Let_def butlast_append)

lemma joint_graph_svf_last:
  assumes "joint_return_svf a" "joint_bidir a" "\<not> joint_return_moved a"
  shows "\<exists>mov_1 mov_2.
     last (butlast (joint_graph a hyp f1 f2 a1 a2)) =
       reg_svf_1 (deformable_registration (joint_int_steps a) hyp mov_1 mov_2)
     \<and> last (joint_graph a hyp f1 f2 a1 a2) =
       reg_svf_2 (deformable_registration (joint_int_steps a) hyp mov_1 mov_2)"
proof -
  let ?d = "length (joint_in_shape a)"
  obtain p1 p2 where pp: "(if joint_pass_affine a
      then passed_affine a (Input ''affine'' [?d, ?d + 1]) else (a1, a2)) = (p1, p2)"
    by (metis surj_pair)
  obtain b1 b2 m1 m2 where di:
    "deformable_input a f1 f2 (half_resolution a f1) (half_resolution a f2) p1 p2
       = (b1, b2, m1, m2)"
    by (metis prod_cases4)
  from joint_graph_unfold [OF pp di refl refl, of hyp] joint_outputs_svf_last [OF assms]
  show ?thesis by metis
qed

lemma joint_graph_def_and_svf:
  assumes "joint_return_def a" "joint_return_svf a" "joint_bidir a" "\<not> joint_return_tot a"
    "\<not> joint_return_aff a" "\<not> joint_return_moved a" "joint_return_trans_to_half_res a"
    "\<not> joint_skip_deform a"
  shows "\<exists>mov_1 mov_2. joint_graph a hyp f1 f2 a1 a2 =
     [reg_def_1 (deformable_registration (joint_int_steps a) hyp mov_1 mov_2),
      reg_def_2 (deformable_registration (joint_int_steps a) hyp mov_1 mov_2),
      reg_svf_1 (deformable_registration (joint_int_steps a) hyp mov_1 mov_2),
      reg_svf_2 (deformable_registration (joint_int_steps a) hyp mov_1 mov_2)]"
proof -
  let ?d = "length (joint_in_shape a)"
  obtain p1 p2 where pp: "(if joint_pass_affine a
      then passed_affine a (Input ''affine'' [?d, ?d + 1]) else (a1, a2)) = (p1, p2)"
    by (metis surj_pair)
  obtain b1 b2 m1 m2 where di:
    "deformable_input a f1 f2 (half_resolution a f1) (half_resolution a f2) p1 p2
       = (b1, b2, m1, m2)"
    by (metis prod_cases4)
  from joint_graph_unfold [OF pp di refl refl, of hyp] assms
  have "joint_graph a hyp f1 f2 a1 a2 =
     [reg_def_1 (deformable_registration (joint_int_steps a) hyp m1 m2),
      reg_def_2 (deformable_registration (joint_int_steps a) hyp m1 m2),
      reg_svf_1 (deformable_registration (joint_int_steps a) hyp m1 m2),
      reg_svf_2 (deformable_registration (joint_int_steps a) hyp m1 m2)]"
    by (simp add: joint_outputs_def to_full_resolution_def Let_def)
  then show ?thesis by blast
qed

subsection \<open>C2: no integration at zero steps\<close>

text \<open>
  C2. With an integration step count of zero the displacement field is the velocity
  field itself. In HyperVxmJoint, \<^verbatim>\<open>def_1\<close> and \<^verbatim>\<open>def_2\<close> are the tensors \<^verbatim>\<open>svf_1\<close>
  and \<^verbatim>\<open>svf_2\<close> at the end of the registration block, and a model that returns the
  deformations and the velocity fields in both directions, at half resolution, returns
  the same two tensors twice. In VxmDense the three blocks that depend on the step count
  return the flow they are given, so that the cached fields \<^verbatim>\<open>preint_flow\<close>,
  \<^verbatim>\<open>postint_flow\<close> and \<^verbatim>\<open>pos_flow\<close> of a constructed model are all the tensor
  \<^verbatim>\<open>svf\<close>, and a model built on its own inputs has no VecInt layer under any output.
  In InstanceDense the warp \<^verbatim>\<open>pos_flow\<close> is the output of the flow layer, which is the
  second output of the model, and no output has a VecInt layer under it.
\<close>

theorem zero_steps_passthrough:
  "reg_def_1 (deformable_registration 0 hyp_inp mov_1 mov_2)
     = reg_svf_1 (deformable_registration 0 hyp_inp mov_1 mov_2)
   \<and> reg_def_2 (deformable_registration 0 hyp_inp mov_1 mov_2)
     = reg_svf_2 (deformable_registration 0 hyp_inp mov_1 mov_2)
   \<and> (joint_int_steps j = 0 \<longrightarrow> HyperVxmJoint j = Inr k \<longrightarrow>
        joint_return_def j \<and> joint_return_svf j \<and> joint_bidir j \<and> \<not> joint_return_tot j
        \<and> \<not> joint_return_aff j \<and> \<not> joint_return_moved j
        \<and> joint_return_trans_to_half_res j \<and> \<not> joint_skip_deform j \<longrightarrow>
        (\<exists>svf_1 svf_2. outputs k = [svf_1, svf_2, svf_1, svf_2]))
   \<and> (int_steps a = 0 \<longrightarrow>
        integrate a flow = flow \<and> rescale_to_int_resolution a flow = flow
        \<and> resize_to_final_resolution a flow = flow)
   \<and> (int_steps a = 0 \<longrightarrow> VxmDense a = Inr m \<longrightarrow>
        ref_pos_flow m = ref_svf m \<and> ref_postint_flow m = ref_svf m
        \<and> ref_preint_flow m = ref_svf m
        \<and> (input_model a = None \<and> hyp_model a = None \<longrightarrow>
             (\<forall>t \<in> set (outputs m). no_VecInt t)))
   \<and> (inst_int_steps b = 0 \<longrightarrow> InstanceDense b w = Inr n \<longrightarrow>
        outputs n = [Call (SpatialTransformer (Some ''linear'') None None None)
                       [Input ''source'' (inst_inshape b @ [inst_nb_feats b]), iref_pos_flow n],
                     iref_pos_flow n]
        \<and> iref_pos_flow n = Call (iref_flow_layer n)
                                [Input ''source'' (inst_inshape b @ [inst_nb_feats b])]
        \<and> (\<forall>t \<in> set (outputs n). no_VecInt t))"
proof -
  have block: "reg_def_1 (deformable_registration 0 h x y) = reg_svf_1 (deformable_registration 0 h x y)
     \<and> reg_def_2 (deformable_registration 0 h x y) = reg_svf_2 (deformable_registration 0 h x y)"
    for h x y
    by (simp add: deformable_registration_def Let_def)
  have joint: "\<exists>svf_1 svf_2. outputs k = [svf_1, svf_2, svf_1, svf_2]"
    if z: "joint_int_steps j = 0" and c: "HyperVxmJoint j = Inr k"
      and f: "joint_return_def j \<and> joint_return_svf j \<and> joint_bidir j \<and> \<not> joint_return_tot j
        \<and> \<not> joint_return_aff j \<and> \<not> joint_return_moved j
        \<and> joint_return_trans_to_half_res j \<and> \<not> joint_skip_deform j"
  proof -
    from HyperVxmJoint_Inr [OF c] obtain h f1 f2 a1 a2
      where o: "outputs k = joint_graph j h f1 f2 a1 a2" by blast
    from f joint_graph_def_and_svf [of j h f1 f2 a1 a2] obtain x y where
      "joint_graph j h f1 f2 a1 a2 =
        [reg_def_1 (deformable_registration (joint_int_steps j) h x y),
         reg_def_2 (deformable_registration (joint_int_steps j) h x y),
         reg_svf_1 (deformable_registration (joint_int_steps j) h x y),
         reg_svf_2 (deformable_registration (joint_int_steps j) h x y)]"
      by blast
    with o z block [of h x y] show ?thesis by simp
  qed
  have blocks: "integrate a flow = flow \<and> rescale_to_int_resolution a flow = flow
      \<and> resize_to_final_resolution a flow = flow" if "int_steps a = 0"
    using that
    by (simp add: integrate_def rescale_to_int_resolution_def resize_to_final_resolution_def)
  have dense: "ref_pos_flow m = ref_svf m \<and> ref_postint_flow m = ref_svf m
      \<and> ref_preint_flow m = ref_svf m
      \<and> (input_model a = None \<and> hyp_model a = None \<longrightarrow> (\<forall>t \<in> set (outputs m). no_VecInt t))"
    if z: "int_steps a = 0" and c: "VxmDense a = Inr m"
  proof -
    from VxmDense_Inr [OF c] obtain m' fp t
      where f: "VxmDense_flow a = Inr (m', fp)" and m: "m = append_output m' t" by blast
    from VxmDense_flow_fields [OF f] obtain ins source target h u
      where "flow_fields (apply_deprecated a) ins source target h u = (m', fp)" by metis
    with z have "ref_pos_flow m' = ref_svf m' \<and> ref_postint_flow m' = ref_svf m'
        \<and> ref_preint_flow m' = ref_svf m'"
      by (intro flow_fields_no_integration) simp_all
    then have "ref_pos_flow m = ref_svf m \<and> ref_postint_flow m = ref_svf m
        \<and> ref_preint_flow m = ref_svf m"
      by (simp add: m)
    moreover have "\<forall>t \<in> set (outputs m). no_VecInt t"
      if "input_model a = None \<and> hyp_model a = None"
      using VxmDense_default_no_VecInt [OF c] z that by simp
    ultimately show ?thesis by blast
  qed
  have inst: "outputs n = [Call (SpatialTransformer (Some ''linear'') None None None)
                       [Input ''source'' (inst_inshape b @ [inst_nb_feats b]), iref_pos_flow n],
                     iref_pos_flow n]
        \<and> iref_pos_flow n = Call (iref_flow_layer n)
                                [Input ''source'' (inst_inshape b @ [inst_nb_feats b])]
        \<and> (\<forall>t \<in> set (outputs n). no_VecInt t)"
    if "inst_int_steps b = 0" and "InstanceDense b w = Inr n"
    using that by (auto simp: InstanceDense_def Let_def split: if_splits)
  from block [of hyp_inp mov_1 mov_2] joint blocks dense inst show ?thesis by blast
qed

theorem zero_steps_passthrough_witness:
  "joint_int_steps
      (joint_defaults\<lparr>joint_int_steps := 0, joint_bidir := True,
         joint_return_trans_to_half_res := True, joint_return_tot := False,
         joint_return_def := True, joint_return_svf := True\<rparr>) = 0
   \<and> (\<exists>k svf_1 svf_2.
          HyperVxmJoint
            (joint_defaults\<lparr>joint_int_steps := 0, joint_bidir := True,
               joint_return_trans_to_half_res := True, joint_return_tot := False,
               joint_return_def := True, joint_return_svf := True\<rparr>) = Inr k
          \<and> outputs k = [svf_1, svf_2, svf_1, svf_2])
   \<and> int_steps (vxm_dense_defaults\<lparr>int_steps := 0\<rparr>) = 0
   \<and> input_model (vxm_dense_defaults\<lparr>int_steps := 0\<rparr>) = None
   \<and> hyp_model (vxm_dense_defaults\<lparr>int_steps := 0\<rparr>) = None
   \<and> (\<exists>m. VxmDense (vxm_dense_defaults\<lparr>int_steps := 0\<rparr>) = Inr m
          \<and> ref_pos_flow m = ref_svf m \<and> ref_postint_flow m = ref_svf m
          \<and> ref_preint_flow m = ref_svf m \<and> (\<forall>t \<in> set (outputs m). no_VecInt t))
   \<and> inst_int_steps (instance_dense_defaults\<lparr>inst_int_steps := 0\<rparr>) = 0
   \<and> (\<exists>n. InstanceDense (instance_dense_defaults\<lparr>inst_int_steps := 0\<rparr>) [] = Inr n
          \<and> (\<forall>t \<in> set (outputs n). no_VecInt t))"
proof -
  let ?j = "joint_defaults\<lparr>joint_int_steps := 0, joint_bidir := True,
         joint_return_trans_to_half_res := True, joint_return_tot := False,
         joint_return_def := True, joint_return_svf := True\<rparr>"
  let ?a = "vxm_dense_defaults\<lparr>int_steps := 0\<rparr>"
  let ?b = "instance_dense_defaults\<lparr>inst_int_steps := 0\<rparr>"
  have zj: "joint_int_steps ?j = 0" by simp
  have fj: "joint_return_def ?j \<and> joint_return_svf ?j \<and> joint_bidir ?j \<and> \<not> joint_return_tot ?j
        \<and> \<not> joint_return_aff ?j \<and> \<not> joint_return_moved ?j
        \<and> joint_return_trans_to_half_res ?j \<and> \<not> joint_skip_deform ?j"
    by (simp add: joint_defaults_def)
  have za: "int_steps ?a = 0" by simp
  have ia: "input_model ?a = None \<and> hyp_model ?a = None" by (simp add: vxm_dense_defaults_def)
  have zb: "inst_int_steps ?b = 0" by simp
  have "\<not> isl (HyperVxmJoint ?j)" by code_simp
  then obtain k where k: "HyperVxmJoint ?j = Inr k" by (cases "HyperVxmJoint ?j") auto
  have "\<not> isl (VxmDense ?a)" by code_simp
  then obtain m where m: "VxmDense ?a = Inr m" by (cases "VxmDense ?a") auto
  have "\<not> isl (InstanceDense ?b [])" by code_simp
  then obtain n where n: "InstanceDense ?b [] = Inr n" by (cases "InstanceDense ?b []") auto
  from zero_steps_passthrough
    [of "[]" "Input ''a'' []" "Input ''b'' []" ?j k ?a "Input ''f'' []" m ?b "[]" n]
  have "(\<exists>svf_1 svf_2. outputs k = [svf_1, svf_2, svf_1, svf_2])
     \<and> ref_pos_flow m = ref_svf m \<and> ref_postint_flow m = ref_svf m
     \<and> ref_preint_flow m = ref_svf m \<and> (\<forall>t \<in> set (outputs m). no_VecInt t)
     \<and> (\<forall>t \<in> set (outputs n). no_VecInt t)"
    using zj fj k za ia m zb n by blast
  with zj za ia zb k m n show ?thesis by blast
qed

subsection \<open>C1: the symmetrized affine fit\<close>

text \<open>
  C1. In every run, the affine estimate built by lines 1405 to 1413 is, entry by entry,
  the mean of the matrix that \<^verbatim>\<open>InvertAffine\<close> returns for the fit from the points of
  image 2 to the points of image 1, and of the fit from the points of image 1 to the
  points of image 2. The two fits are two applications of \<^verbatim>\<open>utils.fit_affine\<close>, to the
  same two barycenter tensors in opposite order, with the same channel weights when the
  fit is weighted: the second is not computed from the first. The barycenters are those
  of the features of the two images, and a detector that is asked for the matrix alone
  (not rigid, not in mid-space, one direction) returns this estimate, brought to index
  space by \<^verbatim>\<open>un_cen\<close> and \<^verbatim>\<open>cen\<close>.
\<close>

theorem symmetrized_affine_fit:
  "fit_and_average weighted cen_1 cen_2 weights =
     Call Average
       [Call InvertAffine
          [Call (Lambda FitAffine) ([cen_2, cen_1] @ (if weighted then [weights] else []))],
        Call (Lambda FitAffine) ([cen_1, cen_2] @ (if weighted then [weights] else []))]
   \<and> eval (keras ext) env (fit_and_average weighted cen_1 cen_2 weights) =
     map2 (\<lambda>x y. (x + y) / 2)
       (ext InvertAffine
          [ext (Lambda FitAffine)
             (map (eval (keras ext) env)
                ([cen_2, cen_1] @ (if weighted then [weights] else [])))])
       (ext (Lambda FitAffine)
          (map (eval (keras ext) env)
             ([cen_1, cen_2] @ (if weighted then [weights] else []))))
   \<and> (VxmAffineFeatureDetector a = Inr m \<longrightarrow>
        matrices_only a \<and> \<not> aff_rigid a \<and> \<not> aff_return_trans_to_mid_space a \<and> \<not> aff_bidir a \<longrightarrow>
        (\<exists>inp_1 inp_2 rest.
           outputs (detector_input_model a) = inp_1 # inp_2 # rest \<and>
           outputs m =
             [index_space (length (aff_in_shape a)) (aff_in_shape a)
                (fit_and_average (aff_weighted a)
                   (barycenter (aff_in_shape a) (detector_features a inp_1))
                   (barycenter (aff_in_shape a) (detector_features a inp_2))
                   (channel_weights (detector_features a inp_1) (detector_features a inp_2)))]))"
proof -
  have "\<exists>inp_1 inp_2 rest.
           outputs (detector_input_model a) = inp_1 # inp_2 # rest \<and>
           outputs m =
             [index_space (length (aff_in_shape a)) (aff_in_shape a)
                (fit_and_average (aff_weighted a)
                   (barycenter (aff_in_shape a) (detector_features a inp_1))
                   (barycenter (aff_in_shape a) (detector_features a inp_2))
                   (channel_weights (detector_features a inp_1) (detector_features a inp_2)))]"
    if c: "VxmAffineFeatureDetector a = Inr m"
      and f: "matrices_only a \<and> \<not> aff_rigid a \<and> \<not> aff_return_trans_to_mid_space a \<and> \<not> aff_bidir a"
  proof -
    from f have mo: "matrices_only a" by blast
    from detector_matrices [OF c mo] f show ?thesis
      by (simp add: mid_space_transforms_def remove_scaling_and_shear_def averaged_fit_def Let_def)
  qed
  then show ?thesis
    by (simp add: fit_and_average_def Let_def average_two)
qed

theorem symmetrized_affine_fit_witness:
  "matrices_only (affine_defaults\<lparr>aff_make_dense := False\<rparr>)
   \<and> \<not> aff_rigid (affine_defaults\<lparr>aff_make_dense := False\<rparr>)
   \<and> \<not> aff_return_trans_to_mid_space (affine_defaults\<lparr>aff_make_dense := False\<rparr>)
   \<and> \<not> aff_bidir (affine_defaults\<lparr>aff_make_dense := False\<rparr>)
   \<and> (\<exists>m inp_1 inp_2 rest.
         VxmAffineFeatureDetector (affine_defaults\<lparr>aff_make_dense := False\<rparr>) = Inr m
         \<and> outputs (detector_input_model (affine_defaults\<lparr>aff_make_dense := False\<rparr>))
             = inp_1 # inp_2 # rest
         \<and> outputs m =
             [index_space 2 [32, 32]
                (Call Average
                   [Call InvertAffine
                      [Call (Lambda FitAffine)
                         [barycenter [32, 32]
                            (detector_features (affine_defaults\<lparr>aff_make_dense := False\<rparr>) inp_2),
                          barycenter [32, 32]
                            (detector_features (affine_defaults\<lparr>aff_make_dense := False\<rparr>) inp_1),
                          channel_weights
                            (detector_features (affine_defaults\<lparr>aff_make_dense := False\<rparr>) inp_1)
                            (detector_features (affine_defaults\<lparr>aff_make_dense := False\<rparr>) inp_2)]],
                    Call (Lambda FitAffine)
                      [barycenter [32, 32]
                         (detector_features (affine_defaults\<lparr>aff_make_dense := False\<rparr>) inp_1),
                       barycenter [32, 32]
                         (detector_features (affine_defaults\<lparr>aff_make_dense := False\<rparr>) inp_2),
                       channel_weights
                         (detector_features (affine_defaults\<lparr>aff_make_dense := False\<rparr>) inp_1)
                         (detector_features (affine_defaults\<lparr>aff_make_dense := False\<rparr>) inp_2)]])])"
proof -
  let ?a = "affine_defaults\<lparr>aff_make_dense := False\<rparr>"
  have f: "matrices_only ?a \<and> \<not> aff_rigid ?a \<and> \<not> aff_return_trans_to_mid_space ?a
      \<and> \<not> aff_bidir ?a"
    by (simp add: matrices_only_def affine_defaults_def)
  have s: "aff_in_shape ?a = [32, 32]" "aff_weighted ?a"
    by (simp_all add: affine_defaults_def)
  have "\<not> isl (VxmAffineFeatureDetector ?a)" by code_simp
  then obtain m where m: "VxmAffineFeatureDetector ?a = Inr m"
    by (cases "VxmAffineFeatureDetector ?a") auto
  from symmetrized_affine_fit [of _ _ _ _ _ _ ?a m] m f
  obtain inp_1 inp_2 rest where
    o: "outputs (detector_input_model ?a) = inp_1 # inp_2 # rest" and
    e: "outputs m =
       [index_space (length (aff_in_shape ?a)) (aff_in_shape ?a)
          (fit_and_average (aff_weighted ?a)
             (barycenter (aff_in_shape ?a) (detector_features ?a inp_1))
             (barycenter (aff_in_shape ?a) (detector_features ?a inp_2))
             (channel_weights (detector_features ?a inp_1) (detector_features ?a inp_2)))]"
    by blast
  note fit = symmetrized_affine_fit [THEN conjunct1, of True
      "barycenter [32, 32] (detector_features ?a inp_1)"
      "barycenter [32, 32] (detector_features ?a inp_2)"
      "channel_weights (detector_features ?a inp_1) (detector_features ?a inp_2)"]
  from e s fit have "outputs m =
       [index_space 2 [32, 32]
          (Call Average
             [Call InvertAffine
                [Call (Lambda FitAffine)
                   [barycenter [32, 32] (detector_features ?a inp_2),
                    barycenter [32, 32] (detector_features ?a inp_1),
                    channel_weights (detector_features ?a inp_1) (detector_features ?a inp_2)]],
              Call (Lambda FitAffine)
                [barycenter [32, 32] (detector_features ?a inp_1),
                 barycenter [32, 32] (detector_features ?a inp_2),
                 channel_weights (detector_features ?a inp_1) (detector_features ?a inp_2)]])]"
    by (simp add: numeral_2_eq_2)
  with f m o show ?thesis by blast
qed


subsection \<open>C10: the two velocity fields are opposite\<close>

text \<open>
  C10. In HyperVxmJoint the forward velocity field is the mean of the network's forward
  prediction and of the negated reverse prediction, and the reverse velocity field is the
  negation of the forward one: as tensors, \<^verbatim>\<open>svf_2\<close> is \<^verbatim>\<open>Negate\<close> applied to
  \<^verbatim>\<open>svf_1\<close>, and in every run its value is minus the value of \<^verbatim>\<open>svf_1\<close>, so that
  the two add up to zero at every entry. This holds for every step count, before any
  integration. A model that returns the velocity fields in both directions (and no moved
  images, which would come after them) has them as its last two outputs, the last being
  \<^verbatim>\<open>Negate\<close> of the one before.
\<close>

theorem svf_antisymmetry:
  "reg_svf_1 (deformable_registration steps hyp_inp mov_1 mov_2) =
     Call Average [Call Negate [Call ModelDef (hyp_inp @ [mov_2, mov_1])],
                   Call ModelDef (hyp_inp @ [mov_1, mov_2])]
   \<and> reg_svf_2 (deformable_registration steps hyp_inp mov_1 mov_2) =
     Call Negate [reg_svf_1 (deformable_registration steps hyp_inp mov_1 mov_2)]
   \<and> eval (keras ext) env (reg_svf_1 (deformable_registration steps hyp_inp mov_1 mov_2)) =
     map2 (\<lambda>x y. (x + y) / 2)
       (map uminus (ext ModelDef (map (eval (keras ext) env) (hyp_inp @ [mov_2, mov_1]))))
       (ext ModelDef (map (eval (keras ext) env) (hyp_inp @ [mov_1, mov_2])))
   \<and> eval (keras ext) env (reg_svf_2 (deformable_registration steps hyp_inp mov_1 mov_2)) =
     map uminus
       (eval (keras ext) env (reg_svf_1 (deformable_registration steps hyp_inp mov_1 mov_2)))
   \<and> map2 (+)
       (eval (keras ext) env (reg_svf_1 (deformable_registration steps hyp_inp mov_1 mov_2)))
       (eval (keras ext) env (reg_svf_2 (deformable_registration steps hyp_inp mov_1 mov_2))) =
     replicate
       (length (eval (keras ext) env
          (reg_svf_1 (deformable_registration steps hyp_inp mov_1 mov_2)))) 0
   \<and> (HyperVxmJoint a = Inr m \<longrightarrow>
        joint_return_svf a \<and> joint_bidir a \<and> \<not> joint_return_moved a \<longrightarrow>
        last (outputs m) = Call Negate [last (butlast (outputs m))]
        \<and> eval (keras ext) env (last (outputs m)) =
            map uminus (eval (keras ext) env (last (butlast (outputs m))))
        \<and> map2 (+) (eval (keras ext) env (last (butlast (outputs m))))
              (eval (keras ext) env (last (outputs m))) =
            replicate (length (eval (keras ext) env (last (butlast (outputs m))))) 0)"
proof -
  have s1: "reg_svf_1 (deformable_registration k h x y) =
      Call Average [Call Negate [Call ModelDef (h @ [y, x])], Call ModelDef (h @ [x, y])]"
    for k h x y
    by (simp add: deformable_registration_def Let_def)
  have s2: "reg_svf_2 (deformable_registration k h x y) =
      Call Negate [reg_svf_1 (deformable_registration k h x y)]" for k h x y
    by (simp add: deformable_registration_def Let_def)
  let ?r = "deformable_registration steps hyp_inp mov_1 mov_2"
  have avg: "eval (keras ext) env (reg_svf_1 ?r) =
      map2 (\<lambda>x y. (x + y) / 2)
        (map uminus (ext ModelDef (map (eval (keras ext) env) (hyp_inp @ [mov_2, mov_1]))))
        (ext ModelDef (map (eval (keras ext) env) (hyp_inp @ [mov_1, mov_2])))"
    unfolding s1 by (simp add: average_two)
  have neg: "eval (keras ext) env (reg_svf_2 ?r) = map uminus (eval (keras ext) env (reg_svf_1 ?r))"
    unfolding s2 by simp
  have zero: "map2 (+) (eval (keras ext) env (reg_svf_1 ?r)) (eval (keras ext) env (reg_svf_2 ?r)) =
      replicate (length (eval (keras ext) env (reg_svf_1 ?r))) 0"
    unfolding neg by (rule map2_add_uminus)
  have model: "last (outputs m) = Call Negate [last (butlast (outputs m))]
      \<and> eval (keras ext) env (last (outputs m)) =
          map uminus (eval (keras ext) env (last (butlast (outputs m))))
      \<and> map2 (+) (eval (keras ext) env (last (butlast (outputs m))))
            (eval (keras ext) env (last (outputs m))) =
          replicate (length (eval (keras ext) env (last (butlast (outputs m))))) 0"
    if c: "HyperVxmJoint a = Inr m"
      and f: "joint_return_svf a \<and> joint_bidir a \<and> \<not> joint_return_moved a"
  proof -
    from HyperVxmJoint_Inr [OF c] obtain h f1 f2 a1 a2
      where o: "outputs m = joint_graph a h f1 f2 a1 a2" by blast
    from f joint_graph_svf_last [of a h f1 f2 a1 a2] obtain x y where
      "last (butlast (outputs m)) = reg_svf_1 (deformable_registration (joint_int_steps a) h x y)"
      "last (outputs m) = reg_svf_2 (deformable_registration (joint_int_steps a) h x y)"
      unfolding o by blast
    then have l: "last (outputs m) = Call Negate [last (butlast (outputs m))]"
      by (simp add: s2)
    then have "eval (keras ext) env (last (outputs m)) =
        map uminus (eval (keras ext) env (last (butlast (outputs m))))"
      by simp
    with l show ?thesis by (simp add: map2_add_uminus)
  qed
  from s1 [of steps hyp_inp mov_1 mov_2] s2 [of steps hyp_inp mov_1 mov_2] avg neg zero model
  show ?thesis by blast
qed

theorem svf_antisymmetry_witness:
  "joint_return_svf (joint_defaults\<lparr>joint_bidir := True, joint_return_svf := True\<rparr>)
   \<and> joint_bidir (joint_defaults\<lparr>joint_bidir := True, joint_return_svf := True\<rparr>)
   \<and> \<not> joint_return_moved (joint_defaults\<lparr>joint_bidir := True, joint_return_svf := True\<rparr>)
   \<and> (\<exists>m. HyperVxmJoint (joint_defaults\<lparr>joint_bidir := True, joint_return_svf := True\<rparr>)
            = Inr m
          \<and> length (outputs m) = 4
          \<and> last (outputs m) = Call Negate [last (butlast (outputs m))])"
proof -
  let ?j = "joint_defaults\<lparr>joint_bidir := True, joint_return_svf := True\<rparr>"
  have f: "joint_return_svf ?j \<and> joint_bidir ?j \<and> \<not> joint_return_moved ?j"
    by (simp add: joint_defaults_def)
  have "(case HyperVxmJoint ?j of Inr m \<Rightarrow> length (outputs m) = 4 | Inl e \<Rightarrow> False)"
    by code_simp
  then obtain m where m: "HyperVxmJoint ?j = Inr m" and n: "length (outputs m) = 4"
    by (cases "HyperVxmJoint ?j") auto
  from svf_antisymmetry [of _ _ _ _ _ _ ?j m] m f
  have "last (outputs m) = Call Negate [last (butlast (outputs m))]" by blast
  with f m n show ?thesis by blast
qed

subsection \<open>C5: the rigid transform by truncation of the parameters\<close>

text \<open>
  C5. With \<^verbatim>\<open>rigid=True\<close> the averaged matrix goes through exactly three layers:
  \<^verbatim>\<open>utils.affine_matrix_to_params\<close>, the slice that keeps the first
  \<open>D (D + 1) / 2\<close> columns of the parameters, and \<^verbatim>\<open>ParamsToAffineMatrix\<close>, which
  builds the matrix from what is left. The number of parameters kept is that of the
  \<open>D\<close> translations and the \<open>D (D - 1) / 2\<close> rotations. No other layer takes part,
  so the projection is the truncation of the parameters and not a projection computed
  from the matrix (such as an orthogonal Procrustes projection). With \<^verbatim>\<open>rigid=False\<close>
  the matrix is left as it is. A rigid detector that is asked for the matrix alone (not
  in mid-space, one direction) returns the averaged fit after these three layers, brought
  to index space.
\<close>

theorem rigid_by_parameter_truncation:
  "remove_scaling_and_shear True num_dim aff_1 =
     Call (ParamsToAffineMatrix num_dim)
       [Call (SliceColumns (num_dim * (num_dim + 1) div 2))
          [Call (Lambda AffineMatrixToParams) [aff_1]]]
   \<and> layers_of (remove_scaling_and_shear True num_dim aff_1) =
     [ParamsToAffineMatrix num_dim, SliceColumns (num_dim * (num_dim + 1) div 2),
      Lambda AffineMatrixToParams] @ layers_of aff_1
   \<and> eval ext env (remove_scaling_and_shear True num_dim aff_1) =
     ext (ParamsToAffineMatrix num_dim)
       [ext (SliceColumns (num_dim * (num_dim + 1) div 2))
          [ext (Lambda AffineMatrixToParams) [eval ext env aff_1]]]
   \<and> num_dim * (num_dim + 1) div 2 = num_dim + num_dim * (num_dim - 1) div 2
   \<and> remove_scaling_and_shear False num_dim aff_1 = aff_1
   \<and> (VxmAffineFeatureDetector a = Inr m \<longrightarrow>
        matrices_only a \<and> aff_rigid a \<and> \<not> aff_return_trans_to_mid_space a \<and> \<not> aff_bidir a \<longrightarrow>
        (\<exists>inp_1 inp_2 rest.
           outputs (detector_input_model a) = inp_1 # inp_2 # rest \<and>
           outputs m =
             [index_space (length (aff_in_shape a)) (aff_in_shape a)
                (Call (ParamsToAffineMatrix (length (aff_in_shape a)))
                   [Call (SliceColumns
                            (length (aff_in_shape a) * (length (aff_in_shape a) + 1) div 2))
                      [Call (Lambda AffineMatrixToParams) [averaged_fit a inp_1 inp_2]]])]))"
proof -
  have count: "num_dim * (num_dim + 1) div 2 = num_dim + num_dim * (num_dim - 1) div 2"
  proof (cases num_dim)
    case 0
    then show ?thesis by simp
  next
    case (Suc k)
    have "Suc k * (Suc k + 1) = 2 * Suc k + Suc k * k" by simp
    then show ?thesis unfolding Suc by simp
  qed
  have model: "\<exists>inp_1 inp_2 rest.
           outputs (detector_input_model a) = inp_1 # inp_2 # rest \<and>
           outputs m =
             [index_space (length (aff_in_shape a)) (aff_in_shape a)
                (Call (ParamsToAffineMatrix (length (aff_in_shape a)))
                   [Call (SliceColumns
                            (length (aff_in_shape a) * (length (aff_in_shape a) + 1) div 2))
                      [Call (Lambda AffineMatrixToParams) [averaged_fit a inp_1 inp_2]]])]"
    if c: "VxmAffineFeatureDetector a = Inr m"
      and f: "matrices_only a \<and> aff_rigid a \<and> \<not> aff_return_trans_to_mid_space a \<and> \<not> aff_bidir a"
  proof -
    from f have mo: "matrices_only a" by blast
    from detector_matrices [OF c mo] f show ?thesis
      by (simp add: mid_space_transforms_def remove_scaling_and_shear_def Let_def)
  qed
  from count model show ?thesis by (simp add: remove_scaling_and_shear_def Let_def)
qed

theorem rigid_by_parameter_truncation_witness:
  "matrices_only (affine_defaults\<lparr>aff_rigid := True, aff_make_dense := False\<rparr>)
   \<and> aff_rigid (affine_defaults\<lparr>aff_rigid := True, aff_make_dense := False\<rparr>)
   \<and> \<not> aff_return_trans_to_mid_space (affine_defaults\<lparr>aff_rigid := True, aff_make_dense := False\<rparr>)
   \<and> \<not> aff_bidir (affine_defaults\<lparr>aff_rigid := True, aff_make_dense := False\<rparr>)
   \<and> (\<exists>m inp_1 inp_2 rest.
         VxmAffineFeatureDetector (affine_defaults\<lparr>aff_rigid := True, aff_make_dense := False\<rparr>)
           = Inr m
         \<and> outputs (detector_input_model
                      (affine_defaults\<lparr>aff_rigid := True, aff_make_dense := False\<rparr>))
             = inp_1 # inp_2 # rest
         \<and> outputs m =
             [index_space 2 [32, 32]
                (Call (ParamsToAffineMatrix 2)
                   [Call (SliceColumns 3)
                      [Call (Lambda AffineMatrixToParams)
                         [averaged_fit
                            (affine_defaults\<lparr>aff_rigid := True, aff_make_dense := False\<rparr>)
                            inp_1 inp_2]]])])"
proof -
  let ?a = "affine_defaults\<lparr>aff_rigid := True, aff_make_dense := False\<rparr>"
  have f: "matrices_only ?a \<and> aff_rigid ?a \<and> \<not> aff_return_trans_to_mid_space ?a
      \<and> \<not> aff_bidir ?a"
    by (simp add: matrices_only_def affine_defaults_def)
  have s: "aff_in_shape ?a = [32, 32]"
    by (simp add: affine_defaults_def)
  have "\<not> isl (VxmAffineFeatureDetector ?a)" by code_simp
  then obtain m where m: "VxmAffineFeatureDetector ?a = Inr m"
    by (cases "VxmAffineFeatureDetector ?a") auto
  from rigid_by_parameter_truncation [of _ _ _ _ ?a m] m f
  obtain inp_1 inp_2 rest where
    o: "outputs (detector_input_model ?a) = inp_1 # inp_2 # rest" and
    e: "outputs m =
       [index_space (length (aff_in_shape ?a)) (aff_in_shape ?a)
          (Call (ParamsToAffineMatrix (length (aff_in_shape ?a)))
             [Call (SliceColumns (length (aff_in_shape ?a) * (length (aff_in_shape ?a) + 1) div 2))
                [Call (Lambda AffineMatrixToParams) [averaged_fit ?a inp_1 inp_2]]])]"
    by blast
  have l: "length [32::nat, 32] = 2" by simp
  have k: "(2::nat) * (2 + 1) div 2 = 3" by simp
  note e = e [unfolded s l k]
  with f m o show ?thesis by blast
qed

subsection \<open>C7: the regularization output\<close>

text \<open>
  C7. Let VxmDense be called with \<^verbatim>\<open>use_probs=False\<close>. If the lower-cased
  \<^verbatim>\<open>reg_field\<close> is none of \<^verbatim>\<open>'svf'\<close>, \<^verbatim>\<open>'preintegrated'\<close>, \<^verbatim>\<open>'postintegrated'\<close>
  and \<^verbatim>\<open>'warp'\<close>, the constructor returns no model: it fails, and when it gets as far as
  the choice of the regularization output (no earlier check has failed) the failure is the
  \<^verbatim>\<open>ValueError\<close> whose message quotes the lower-cased option. For each of the four
  values the model is the one built so far with exactly the matching cached field
  (\<^verbatim>\<open>svf\<close>, \<^verbatim>\<open>preint_flow\<close>, \<^verbatim>\<open>postint_flow\<close>, \<^verbatim>\<open>pos_flow\<close>) appended to its
  outputs.
\<close>

theorem reg_field_selector:
  assumes "\<not> use_probs a"
  shows "(lower (reg_field a) \<notin> {''svf'', ''preintegrated'', ''postintegrated'', ''warp''} \<longrightarrow>
           isl (VxmDense a) \<and>
           (\<forall>m flow_params. VxmDense_flow a = Inr (m, flow_params) \<longrightarrow>
              VxmDense a = Inl (ValueError (unknown_reg_field (lower (reg_field a))))))
       \<and> (lower (reg_field a) \<in> {''svf'', ''preintegrated'', ''postintegrated'', ''warp''} \<longrightarrow>
           (\<forall>m flow_params. VxmDense_flow a = Inr (m, flow_params) \<longrightarrow>
              VxmDense a = Inr (m\<lparr>outputs := outputs m @
                 [if lower (reg_field a) = ''svf'' then ref_svf m
                  else if lower (reg_field a) = ''preintegrated'' then ref_preint_flow m
                  else if lower (reg_field a) = ''postintegrated'' then ref_postint_flow m
                  else ref_pos_flow m]\<rparr>)))"
  using assms
  by (auto simp: VxmDense_def Let_def append_output_def split: sum.splits)

theorem reg_field_selector_witness:
  "\<not> use_probs (vxm_dense_defaults\<lparr>reg_field := ''Foo''\<rparr>)
   \<and> lower (reg_field (vxm_dense_defaults\<lparr>reg_field := ''Foo''\<rparr>))
       \<notin> {''svf'', ''preintegrated'', ''postintegrated'', ''warp''}
   \<and> \<not> isl (VxmDense_flow (vxm_dense_defaults\<lparr>reg_field := ''Foo''\<rparr>))
   \<and> VxmDense (vxm_dense_defaults\<lparr>reg_field := ''Foo''\<rparr>)
       = Inl (ValueError (''Unknown option '' @ [CHR 0x22] @ ''foo'' @ [CHR 0x22]
                @ '' for reg_field.''))
   \<and> \<not> use_probs (vxm_dense_defaults\<lparr>reg_field := ''WARP''\<rparr>)
   \<and> lower (reg_field (vxm_dense_defaults\<lparr>reg_field := ''WARP''\<rparr>)) = ''warp''
   \<and> (\<exists>m flow_params.
         VxmDense_flow (vxm_dense_defaults\<lparr>reg_field := ''WARP''\<rparr>) = Inr (m, flow_params)
         \<and> VxmDense (vxm_dense_defaults\<lparr>reg_field := ''WARP''\<rparr>)
             = Inr (m\<lparr>outputs := outputs m @ [ref_pos_flow m]\<rparr>))"
proof -
  let ?a = "vxm_dense_defaults\<lparr>reg_field := ''Foo''\<rparr>"
  let ?b = "vxm_dense_defaults\<lparr>reg_field := ''WARP''\<rparr>"
  have pa: "\<not> use_probs ?a" and pb: "\<not> use_probs ?b"
    by (simp_all add: vxm_dense_defaults_def)
  have la: "lower (reg_field ?a) = ''foo''" and lb: "lower (reg_field ?b) = ''warp''"
    by code_simp+
  have fa: "\<not> isl (VxmDense_flow ?a)" and fb: "\<not> isl (VxmDense_flow ?b)"
    by code_simp+
  from fa obtain m fp where ma: "VxmDense_flow ?a = Inr (m, fp)"
    by (cases "VxmDense_flow ?a") auto
  from fb obtain n fq where mb: "VxmDense_flow ?b = Inr (n, fq)"
    by (cases "VxmDense_flow ?b") auto
  have "VxmDense ?a = Inl (ValueError (unknown_reg_field ''foo''))"
    using reg_field_selector [OF pa] ma la by simp
  moreover have "VxmDense ?b = Inr (n\<lparr>outputs := outputs n @ [ref_pos_flow n]\<rparr>)"
    using reg_field_selector [OF pb] mb lb by simp
  ultimately show ?thesis
    using pa pb la lb fa mb by (simp add: unknown_reg_field_def)
qed

subsection \<open>C9: writing and reading the flow of InstanceDense\<close>




subsection \<open>C4: the mid-space transforms are not checked\<close>

text \<open>
  C4, as the claim states it, fails: no layer between the affine estimate and the
  composition into index space looks at the result of the square root. In the run
  \<open>nan_run\<close>, in which \<^verbatim>\<open>tf.linalg.sqrtm\<close> returns \<^verbatim>\<open>nan\<close> entries for the
  reflection, the mid-space transform of the reflection is that matrix of \<^verbatim>\<open>nan\<close>.
\<close>

theorem mid_space_nan_counterexample:
  "eval nan_run reflection_input (fst (mid_space_transforms True (Input ''aff_1'' [2, 3])))
     = replicate 9 NonFinite"
  by code_simp

text \<open>
  C4, amended. With \<^verbatim>\<open>return_trans_to_mid_space=True\<close> in VxmAffineFeatureDetector, and
  with \<^verbatim>\<open>mid_space=True\<close> in HyperVxmJoint (which hands the flag to the detector and
  runs the same four lines on a passed affine), the two mid-space transforms are, in
  every run, exactly what \<^verbatim>\<open>tf.linalg.sqrtm\<close> returns for
  \<^verbatim>\<open>make_square_affine\<close> of the affine and of its inverse: the result of the square
  root is passed on as it is, with no check of its own. A detector that is asked for the
  two mid-space matrices alone returns them brought to index space, with nothing else in
  between.
\<close>

theorem mid_space_unchecked_sqrtm:
  "mid_space_transforms True aff_1 =
     (Call (Lambda Sqrtm) [Call (Lambda MakeSquareAffine) [aff_1]],
      Call (Lambda Sqrtm) [Call (Lambda MakeSquareAffine) [Call InvertAffine [aff_1]]])
   \<and> eval ext env (fst (mid_space_transforms True aff_1)) =
       ext (Lambda Sqrtm) [ext (Lambda MakeSquareAffine) [eval ext env aff_1]]
   \<and> eval ext env (snd (mid_space_transforms True aff_1)) =
       ext (Lambda Sqrtm)
         [ext (Lambda MakeSquareAffine) [ext InvertAffine [eval ext env aff_1]]]
   \<and> aff_return_trans_to_mid_space (arg_aff a) = joint_mid_space a
   \<and> passed_affine a affine =
       mid_space_transforms (joint_mid_space a)
         (Call (ComposeTransform None)
            [scale (length (joint_in_shape a)) 0.5, affine, scale (length (joint_in_shape a)) 2])
   \<and> (VxmAffineFeatureDetector d = Inr m \<longrightarrow>
        matrices_only d \<and> aff_return_trans_to_mid_space d \<and> aff_bidir d \<longrightarrow>
        (\<exists>inp_1 inp_2 rest.
           outputs (detector_input_model d) = inp_1 # inp_2 # rest \<and>
           outputs m =
             [index_space (length (aff_in_shape d)) (aff_in_shape d)
                (Call (Lambda Sqrtm)
                   [Call (Lambda MakeSquareAffine)
                      [remove_scaling_and_shear (aff_rigid d) (length (aff_in_shape d))
                         (averaged_fit d inp_1 inp_2)]]),
              index_space (length (aff_in_shape d)) (aff_in_shape d)
                (Call (Lambda Sqrtm)
                   [Call (Lambda MakeSquareAffine)
                      [Call InvertAffine
                         [remove_scaling_and_shear (aff_rigid d) (length (aff_in_shape d))
                            (averaged_fit d inp_1 inp_2)]]])]))"
proof -
  have model: "\<exists>inp_1 inp_2 rest.
           outputs (detector_input_model d) = inp_1 # inp_2 # rest \<and>
           outputs m =
             [index_space (length (aff_in_shape d)) (aff_in_shape d)
                (Call (Lambda Sqrtm)
                   [Call (Lambda MakeSquareAffine)
                      [remove_scaling_and_shear (aff_rigid d) (length (aff_in_shape d))
                         (averaged_fit d inp_1 inp_2)]]),
              index_space (length (aff_in_shape d)) (aff_in_shape d)
                (Call (Lambda Sqrtm)
                   [Call (Lambda MakeSquareAffine)
                      [Call InvertAffine
                         [remove_scaling_and_shear (aff_rigid d) (length (aff_in_shape d))
                            (averaged_fit d inp_1 inp_2)]]])]"
    if c: "VxmAffineFeatureDetector d = Inr m"
      and f: "matrices_only d \<and> aff_return_trans_to_mid_space d \<and> aff_bidir d"
  proof -
    from f have mo: "matrices_only d" by blast
    from detector_matrices [OF c mo] f show ?thesis
      by (simp add: mid_space_transforms_def Let_def)
  qed
  then show ?thesis
    by (simp add: mid_space_transforms_def Let_def arg_aff_def passed_affine_def)
qed

theorem mid_space_unchecked_sqrtm_witness:
  "matrices_only (affine_defaults\<lparr>aff_make_dense := False, aff_bidir := True,
       aff_return_trans_to_mid_space := True\<rparr>)
   \<and> aff_return_trans_to_mid_space (affine_defaults\<lparr>aff_make_dense := False, aff_bidir := True,
       aff_return_trans_to_mid_space := True\<rparr>)
   \<and> aff_bidir (affine_defaults\<lparr>aff_make_dense := False, aff_bidir := True,
       aff_return_trans_to_mid_space := True\<rparr>)
   \<and> (\<exists>m x y.
         VxmAffineFeatureDetector (affine_defaults\<lparr>aff_make_dense := False, aff_bidir := True,
           aff_return_trans_to_mid_space := True\<rparr>) = Inr m
         \<and> outputs m =
             [index_space 2 [32, 32] (Call (Lambda Sqrtm) [Call (Lambda MakeSquareAffine) [x]]),
              index_space 2 [32, 32] (Call (Lambda Sqrtm) [Call (Lambda MakeSquareAffine) [y]])]
         \<and> y = Call InvertAffine [x])"
proof -
  let ?d = "affine_defaults\<lparr>aff_make_dense := False, aff_bidir := True,
       aff_return_trans_to_mid_space := True\<rparr>"
  have f: "matrices_only ?d \<and> aff_return_trans_to_mid_space ?d \<and> aff_bidir ?d"
    by (simp add: matrices_only_def affine_defaults_def)
  have s: "aff_in_shape ?d = [32, 32]"
    by (simp add: affine_defaults_def)
  have "\<not> isl (VxmAffineFeatureDetector ?d)" by code_simp
  then obtain m where m: "VxmAffineFeatureDetector ?d = Inr m"
    by (cases "VxmAffineFeatureDetector ?d") auto
  from mid_space_unchecked_sqrtm [of _ _ _ _ _ ?d m] m f
  obtain inp_1 inp_2 rest where
    e: "outputs m =
             [index_space (length (aff_in_shape ?d)) (aff_in_shape ?d)
                (Call (Lambda Sqrtm)
                   [Call (Lambda MakeSquareAffine)
                      [remove_scaling_and_shear (aff_rigid ?d) (length (aff_in_shape ?d))
                         (averaged_fit ?d inp_1 inp_2)]]),
              index_space (length (aff_in_shape ?d)) (aff_in_shape ?d)
                (Call (Lambda Sqrtm)
                   [Call (Lambda MakeSquareAffine)
                      [Call InvertAffine
                         [remove_scaling_and_shear (aff_rigid ?d) (length (aff_in_shape ?d))
                            (averaged_fit ?d inp_1 inp_2)]]])]"
    by blast
  have l: "length [32::nat, 32] = 2" by simp
  note e = e [unfolded s l]
  with f m show ?thesis by blast
qed

subsection \<open>C8: the update of the mean stream\<close>

text \<open>
  C8, as the claim states it, fails when a batch is larger than the cap: the first update
  then has the weight \<open>batch_size / cap > 1\<close>, and a constant input is overshot. With
  the cap 100, a batch of 128 and the constant 1, the mean after the first update is
  1.28.
\<close>

theorem constant_feed_counterexample:
  "acc_mean (feed 1 [1] 128 100 \<lparr>acc_count = 0, acc_mean = [0]\<rparr>) = [32 / 25]
   \<and> acc_mean (feed 1 [1] 128 100 \<lparr>acc_count = 0, acc_mean = [0]\<rparr>) \<noteq> [1]"
  by (simp add: update_def update_weight_def)

text \<open>
  C8, amended. For a batch of size \<open>batch_size > 0\<close>: the new count is
  \<open>min (count + batch_size) cap\<close>; while \<open>count < cap\<close> the new mean is
  \<open>mean + (batch_mean - mean) \<cdot> batch_size / min (count + batch_size) cap\<close>, which is
  the exact running average \<open>(count \<cdot> mean + batch_size \<cdot> batch_mean) / (count + batch_size)\<close>
  as long as \<open>count + batch_size \<le> cap\<close>; once the count has reached the cap the
  weight is \<open>batch_size / cap\<close>; and feeding a constant field \<open>v\<close> in batches no
  larger than the cap, from a state with count 0, makes the mean equal to \<open>v\<close> after
  the first update and after every later one.
\<close>

theorem mean_stream_update:
  assumes "0 < batch_size"
  shows "acc_count (update batch_mean batch_size cap s) = min (acc_count s + batch_size) cap
    \<and> (acc_count s < cap \<longrightarrow>
         acc_mean (update batch_mean batch_size cap s) =
           map2 (\<lambda>m b. m + (b - m) * (real batch_size / real (min (acc_count s + batch_size) cap)))
             (acc_mean s) batch_mean)
    \<and> (acc_count s + batch_size \<le> cap \<longrightarrow>
         acc_mean (update batch_mean batch_size cap s) =
           map2 (\<lambda>m b. (real (acc_count s) * m + real batch_size * b)
                          / real (acc_count s + batch_size))
             (acc_mean s) batch_mean)
    \<and> (cap \<le> acc_count s \<longrightarrow>
         acc_mean (update batch_mean batch_size cap s) =
           map2 (\<lambda>m b. m + (b - m) * (real batch_size / real cap)) (acc_mean s) batch_mean)
    \<and> (acc_count s = 0 \<and> batch_size \<le> cap \<and> length (acc_mean s) = length v \<and> 0 < n \<longrightarrow>
         acc_mean (feed n v batch_size cap s) = v)"
proof -
  have count: "acc_count (update batch_mean batch_size cap s) = min (acc_count s + batch_size) cap"
    by (simp add: update_def)
  have below: "acc_mean (update batch_mean batch_size cap s) =
      map2 (\<lambda>m b. m + (b - m) * (real batch_size / real (min (acc_count s + batch_size) cap)))
        (acc_mean s) batch_mean" if "acc_count s < cap"
    using that by (simp add: update_def update_weight_def Let_def)
  have exact: "acc_mean (update batch_mean batch_size cap s) =
      map2 (\<lambda>m b. (real (acc_count s) * m + real batch_size * b)
                     / real (acc_count s + batch_size))
        (acc_mean s) batch_mean" if le: "acc_count s + batch_size \<le> cap"
  proof -
    from le assms have lt: "acc_count s < cap" by simp
    from le have c: "min (acc_count s + batch_size) cap = acc_count s + batch_size" by simp
    have pos: "real (acc_count s + batch_size) \<noteq> 0" using assms by simp
    have "m + (b - m) * (real batch_size / real (acc_count s + batch_size)) =
        (real (acc_count s) * m + real batch_size * b) / real (acc_count s + batch_size)"
      for m b :: real
      using pos by (simp add: field_simps)
    then show ?thesis unfolding below [OF lt] c by simp
  qed
  have above: "acc_mean (update batch_mean batch_size cap s) =
      map2 (\<lambda>m b. m + (b - m) * (real batch_size / real cap)) (acc_mean s) batch_mean"
    if "cap \<le> acc_count s"
    using that by (simp add: update_def update_weight_def Let_def)
  have const: "acc_mean (feed n v batch_size cap s) = v"
    if z: "acc_count s = 0" and le: "batch_size \<le> cap"
      and len: "length (acc_mean s) = length v" and n: "0 < n"
  proof -
    from n obtain k where k: "n = Suc k" by (cases n) auto
    have w: "update_weight (acc_count s) batch_size cap = 1"
      using z le assms by (simp add: update_weight_def Let_def)
    have "acc_mean (update v batch_size cap s) = v"
      by (simp add: update_def w map2_second [OF len])
    then show ?thesis unfolding k by (simp add: feed_keeps_constant)
  qed
  from count below exact above const show ?thesis by blast
qed

theorem mean_stream_update_witness:
  "(0::nat) < 2
   \<and> acc_count \<lparr>acc_count = 99, acc_mean = [0, 4]\<rparr> < 100
   \<and> acc_count \<lparr>acc_count = 0, acc_mean = [0, 4]\<rparr> + 2 \<le> 100
   \<and> (100::nat) \<le> acc_count \<lparr>acc_count = 100, acc_mean = [0, 4]\<rparr>
   \<and> acc_count (update [1, 5] 2 100 \<lparr>acc_count = 99, acc_mean = [0, 4]\<rparr>) = 100
   \<and> acc_mean (update [1, 5] 2 100 \<lparr>acc_count = 99, acc_mean = [0, 4]\<rparr>) = [1 / 50, 201 / 50]
   \<and> acc_mean (update [1, 5] 2 100 \<lparr>acc_count = 100, acc_mean = [0, 4]\<rparr>) = [1 / 50, 201 / 50]
   \<and> acc_mean (feed 3 [1, 5] 2 100 \<lparr>acc_count = 0, acc_mean = [0, 4]\<rparr>) = [1, 5]"
proof -
  have p: "(0::nat) < 2" by simp
  let ?s = "\<lparr>acc_count = 0, acc_mean = [0, 4::real]\<rparr>"
  let ?t = "\<lparr>acc_count = 99, acc_mean = [0, 4::real]\<rparr>"
  let ?u = "\<lparr>acc_count = 100, acc_mean = [0, 4::real]\<rparr>"
  have h: "acc_count ?s = 0 \<and> (2::nat) \<le> 100 \<and> length (acc_mean ?s) = length [1, 5::real]
      \<and> (0::nat) < 3"
    by simp
  from mean_stream_update [OF p, of "[1, 5]" 100 ?s "[1, 5]" 3] h
  have c: "acc_mean (feed 3 [1, 5] 2 100 ?s) = [1, 5]" by blast
  from mean_stream_update [OF p, of "[1, 5]" 100 ?t]
  have t: "acc_count (update [1, 5] 2 100 ?t) = 100
      \<and> acc_mean (update [1, 5] 2 100 ?t) = [1 / 50, 201 / 50]"
    by simp
  from mean_stream_update [OF p, of "[1, 5]" 100 ?u]
  have u: "acc_mean (update [1, 5] 2 100 ?u) = [1 / 50, 201 / 50]"
    by simp
  from p c t u show ?thesis by simp
qed

subsection \<open>C6: the centering flag in the pipelines that change resolution\<close>

text \<open>
  C6. HyperVxmJoint calls \<^verbatim>\<open>layers.ComposeTransform()\<close> with no \<^verbatim>\<open>shift_center\<close>
  argument where it brings the total transform to full resolution (lines 1699 and 1700),
  so the flag is left to the layer's default there. With the default arguments, and with
  \<^verbatim>\<open>skip_deform=True\<close> (where the total transform is a product of matrices), the total
  transform that the model returns is such a composition, of a transform composed with
  \<^verbatim>\<open>shift_center=False\<close> and of the field \<^verbatim>\<open>down\<close> made with
  \<^verbatim>\<open>shift_center=False\<close>. No such call is under the outputs of the model that returns
  its transform at half resolution, nor under those of the default detector.
\<close>

theorem total_warp_composed_without_shift_center:
  "(case HyperVxmJoint joint_defaults of
      Inr m \<Rightarrow>
        (case outputs m of
           [Call l [tot_1, down]] \<Rightarrow>
             l = ComposeTransform None
             \<and> hd (layers_of tot_1) = ComposeTransform (Some False)
             \<and> down = Call (AffineToDenseShift [32, 32] (Some False)) [scale 2 0.5]
         | _ \<Rightarrow> False)
    | Inl e \<Rightarrow> False)
   \<and> (case HyperVxmJoint (joint_defaults\<lparr>joint_skip_deform := True\<rparr>) of
      Inr m \<Rightarrow>
        (case outputs m of
           [Call l [Call l' [aff_1, def_1], down]] \<Rightarrow>
             l = ComposeTransform None
             \<and> l' = ComposeTransform (Some False)
             \<and> def_1 = scale 2 1
             \<and> down = Call (AffineToDenseShift [32, 32] (Some False)) [scale 2 0.5]
         | _ \<Rightarrow> False)
    | Inl e \<Rightarrow> False)
   \<and> \<not> isl (HyperVxmJoint (joint_defaults\<lparr>joint_return_trans_to_half_res := True\<rparr>))
   \<and> ComposeTransform None \<notin>
       set (model_layers
              (HyperVxmJoint (joint_defaults\<lparr>joint_return_trans_to_half_res := True\<rparr>)))
   \<and> \<not> isl (VxmAffineFeatureDetector affine_defaults)
   \<and> ComposeTransform None \<notin> set (model_layers (VxmAffineFeatureDetector affine_defaults))
   \<and> ComposeTransform (Some True) \<notin> set (model_layers (HyperVxmJoint joint_defaults))"
  by code_simp

end
